theory Spec2Isabelle
  imports Complex_Main "HOL-Library.Word" "HOL-Library.Log_Nat"
begin

unbundle bit_operations_syntax

section \<open>Machine types and constants of testsystem.c\<close>

type_synonym u8 = "8 word"
type_synonym u16 = "16 word"
type_synonym u32 = "32 word"

text \<open>\<^verbatim>\<open>#define CRC_POLYNOMIAL 0x131\<close>, an \<^verbatim>\<open>int\<close> constant; \<^verbatim>\<open>int\<close> is 32 bits wide on the
  platform named in the file header (x86-64 Linux, gcc).\<close>

definition CRC_POLYNOMIAL :: u32 where
  "CRC_POLYNOMIAL = 0x131"

text \<open>\<^verbatim>\<open>#define I2C_RETRY_LIMIT 5\<close>. The only use of the macro is inside the block comment
  of \<^verbatim>\<open>main\<close> (lines 710 to 741), so nothing below depends on it.\<close>

definition I2C_RETRY_LIMIT :: int where
  "I2C_RETRY_LIMIT = 5"

section \<open>VerifyChecksum\<close>

text \<open>One pass of the inner loop body. The operand \<^verbatim>\<open>crc\<close> is promoted to \<^verbatim>\<open>int\<close>, shifted
  and XORed there, and the assignment back to the \<^verbatim>\<open>uint8_t\<close> keeps the low eight bits.\<close>

definition crc_shift :: "u8 \<Rightarrow> u8" where
  "crc_shift crc =
     (if crc AND 0x80 \<noteq> 0
      then ucast (push_bit 1 (ucast crc :: u32) XOR CRC_POLYNOMIAL)
      else ucast (push_bit 1 (ucast crc :: u32)))"

text \<open>\<^verbatim>\<open>for(bit_counter = 8; bit_counter > 0; --bit_counter)\<close>: the argument is the
  value of \<^verbatim>\<open>bit_counter\<close>.\<close>

fun bit_loop :: "nat \<Rightarrow> u8 \<Rightarrow> u8" where
  "bit_loop 0 crc = crc"
| "bit_loop (Suc bit_counter) crc = bit_loop bit_counter (crc_shift crc)"

text \<open>\<^verbatim>\<open>for(byte_counter = 0; byte_counter < bytes_count; byte_counter++)\<close> over the array
  \<^verbatim>\<open>data\<close>, both counters being \<^verbatim>\<open>uint8_t\<close>. The list \<open>data\<close> is the memory starting at the
  pointer that was passed; reading past its end is undefined in C, and the theorems below
  keep \<open>bytes_count\<close> within the list.\<close>

function byte_loop :: "u8 list \<Rightarrow> u8 \<Rightarrow> u8 \<Rightarrow> u8 \<Rightarrow> u8" where
  "byte_loop data bytes_count byte_counter crc =
     (if byte_counter < bytes_count
      then byte_loop data bytes_count (byte_counter + 1)
             (bit_loop 8 (crc XOR data ! unat byte_counter))
      else crc)"
  by pat_completeness auto
termination
proof (relation "measure (\<lambda>(data, bytes_count, byte_counter, crc). unat bytes_count - unat byte_counter)")
  show "wf (measure (\<lambda>(data, bytes_count, byte_counter, crc). unat bytes_count - unat byte_counter))"
    by simp
next
  fix data :: "u8 list" and bytes_count byte_counter crc :: u8
  assume lt: "byte_counter < bytes_count"
  then have "unat byte_counter < unat bytes_count"
    by (simp add: word_less_nat_alt)
  moreover have "unat (byte_counter + 1) = unat byte_counter + 1"
    using lt by (metis (no_types, lifting) add.commute add_cancel_left_right inc_i
        inc_le unat_plus_simple unsigned_0 unsigned_1 word_gt_0)
  ultimately show "((data, bytes_count, byte_counter + 1, bit_loop 8 (crc XOR data ! unat byte_counter)),
          (data, bytes_count, byte_counter, crc))
        \<in> measure (\<lambda>(data, bytes_count, byte_counter, crc). unat bytes_count - unat byte_counter)"
    by simp
qed

definition VerifyChecksum :: "u8 list \<Rightarrow> u8 \<Rightarrow> u8 \<Rightarrow> int" where
  "VerifyChecksum data bytes_count received_checksum =
     (if byte_loop data bytes_count 0 0xFF \<noteq> received_checksum then - 2 else 0)"

subsection \<open>The CRC-8 of the specification\<close>

text \<open>The reference algorithm in the words of the specification, on natural numbers:
  polynomial 0x131, initial value 0xFF, most significant bit first; one shift step doubles
  the register and XORs the polynomial in when the shift overflows eight bits; a byte is
  XORed into the register and followed by eight shift steps.\<close>

definition crc8_step :: "nat \<Rightarrow> nat" where
  "crc8_step c = (if 256 \<le> 2 * c then (2 * c) XOR 0x131 else 2 * c)"

fun crc8_steps :: "nat \<Rightarrow> nat \<Rightarrow> nat" where
  "crc8_steps 0 c = c"
| "crc8_steps (Suc k) c = crc8_steps k (crc8_step c)"

definition crc8_byte :: "nat \<Rightarrow> u8 \<Rightarrow> nat" where
  "crc8_byte c b = crc8_steps 8 (c XOR unat b)"

definition compute :: "u8 list \<Rightarrow> u8" where
  "compute bytes = of_nat (foldl crc8_byte 0xFF bytes)"

section \<open>Single-precision arithmetic\<close>

text \<open>A \<^verbatim>\<open>float\<close> is IEEE binary32 and a \<^verbatim>\<open>double\<close> binary64 on the platform of the file
  header. A finite floating-point value is modelled by the real number it denotes, and an
  operation by the exact real operation followed by rounding to nearest, ties to even, at
  precision \<open>p\<close> with least exponent \<open>emin\<close>. Infinities and NaN are outside this model:
  no rounding to infinity happens at the magnitudes of this program, and every quotient
  that a theorem below evaluates has a divisor that is shown to be away from zero.\<close>

text \<open>\<open>binade x\<close> is the exponent \<open>e\<close> with \<open>2^e \<le> |x| < 2^(e+1)\<close>, computed from the
  bit length of an integer part.\<close>

definition binade :: "real \<Rightarrow> int" where
  "binade x =
     (let a = \<bar>x\<bar> in
      if 1 \<le> a then bitlen \<lfloor>a\<rfloor> - 1
      else (let k = bitlen \<lfloor>1 / a\<rfloor> - 1 in if a * 2 powi k = 1 then - k else - k - 1))"

definition round_half_even :: "real \<Rightarrow> int" where
  "round_half_even x =
     (let f = \<lfloor>x\<rfloor>; d = x - of_int f in
      if d < 1 / 2 then f else if 1 / 2 < d then f + 1 else if even f then f else f + 1)"

definition fround :: "nat \<Rightarrow> int \<Rightarrow> real \<Rightarrow> real" where
  "fround p emin x =
     (if x = 0 then 0
      else (let e = max emin (binade x - int p + 1)
            in of_int (round_half_even (x / 2 powi e)) * 2 powi e))"

definition f32 :: "real \<Rightarrow> real" where
  "f32 = fround 24 (- 149)"

definition f64 :: "real \<Rightarrow> real" where
  "f64 = fround 53 (- 1074)"

definition f32_add :: "real \<Rightarrow> real \<Rightarrow> real" where
  "f32_add x y = f32 (x + y)"

definition f32_sub :: "real \<Rightarrow> real \<Rightarrow> real" where
  "f32_sub x y = f32 (x - y)"

definition f32_mul :: "real \<Rightarrow> real \<Rightarrow> real" where
  "f32_mul x y = f32 (x * y)"

definition f32_div :: "real \<Rightarrow> real \<Rightarrow> real" where
  "f32_div x y = f32 (x / y)"

definition f64_div :: "real \<Rightarrow> real \<Rightarrow> real" where
  "f64_div x y = f64 (x / y)"

text \<open>The dew point coefficients are \<^verbatim>\<open>double\<close> literals.\<close>

definition T_PLUS :: real where
  "T_PLUS = f64 243.12"

definition M_PLUS :: real where
  "M_PLUS = f64 17.62"

definition T_MINUS :: real where
  "T_MINUS = f64 272.62"

definition M_MINUS :: real where
  "M_MINUS = f64 22.46"

section \<open>ConvertTemperature and ConvertHumidity\<close>

text \<open>\<^verbatim>\<open>return 175 * (float)sensor_value / 65536 - 45;\<close> The integer operands are converted
  to \<^verbatim>\<open>float\<close>, and every operation is a \<^verbatim>\<open>float\<close> operation.\<close>

definition ConvertTemperature :: "u16 \<Rightarrow> real" where
  "ConvertTemperature sensor_value =
     f32_sub (f32_div (f32_mul 175 (f32 (real (unat sensor_value)))) 65536) 45"

definition ConvertHumidity :: "u16 \<Rightarrow> real" where
  "ConvertHumidity sensor_value =
     f32_div (f32_mul 100 (f32 (real (unat sensor_value)))) 65536"

section \<open>The I2C bridge\<close>

text \<open>Modelled from the spec: the report structure of \<^verbatim>\<open>iowkit.h\<close>, which is not among the
  sources. The specification calls it a fixed-size report of mode, command and payload
  bytes, each an unsigned 8-bit value; the code writes and reads \<^verbatim>\<open>ReportID\<close> and
  \<^verbatim>\<open>Bytes[0]\<close> to \<^verbatim>\<open>Bytes[6]\<close>, which are the fields \<open>B0\<close> to \<open>B6\<close> here.\<close>

record IOWKIT_SPECIAL_REPORT =
  ReportID :: u8
  B0 :: u8
  B1 :: u8
  B2 :: u8
  B3 :: u8
  B4 :: u8
  B5 :: u8
  B6 :: u8

text \<open>The array \<^verbatim>\<open>Bytes\<close> as a span; \<^verbatim>\<open>&report.Bytes[k]\<close> is \<open>drop k (Bytes report)\<close>.\<close>

definition Bytes :: "IOWKIT_SPECIAL_REPORT \<Rightarrow> u8 list" where
  "Bytes r = [B0 r, B1 r, B2 r, B3 r, B4 r, B5 r, B6 r]"

text \<open>\<^verbatim>\<open>memset(&report, 0x00, IOWKIT_SPECIAL_REPORT_SIZE)\<close>\<close>

definition cleared_report :: IOWKIT_SPECIAL_REPORT where
  "cleared_report = \<lparr>ReportID = 0, B0 = 0, B1 = 0, B2 = 0, B3 = 0, B4 = 0, B5 = 0, B6 = 0\<rparr>"

text \<open>An \<^verbatim>\<open>IOWKIT_HANDLE\<close> is an opaque pointer; 0 is \<^verbatim>\<open>NULL\<close>.\<close>

type_synonym IOWKIT_HANDLE = nat

text \<open>The library calls \<^verbatim>\<open>IowKitWrite\<close> and \<^verbatim>\<open>IowKitRead\<close> are parameters, over a state
  \<open>'w\<close> of everything behind the library (adapters, bus and sensors). \<^verbatim>\<open>IowKitRead\<close>
  receives the buffer it fills and returns its new content.\<close>

record 'w iowkit =
  IowKitWrite :: "'w \<Rightarrow> IOWKIT_HANDLE \<Rightarrow> IOWKIT_SPECIAL_REPORT \<Rightarrow> 'w"
  IowKitRead :: "'w \<Rightarrow> IOWKIT_HANDLE \<Rightarrow> IOWKIT_SPECIAL_REPORT \<Rightarrow> IOWKIT_SPECIAL_REPORT \<times> 'w"

definition I2C_WRITE_COMMAND :: u8 where
  "I2C_WRITE_COMMAND = 0xE0"

definition I2C_READ_COMMAND :: u8 where
  "I2C_READ_COMMAND = 0xE1"

definition MEASURE_T_RH_CLKSTR :: u16 where
  "MEASURE_T_RH_CLKSTR = 0x7CA2"

text \<open>The console messages of the I2C functions are left out: no statement below is about
  them.\<close>

definition ReadI2c :: "'w iowkit \<Rightarrow> 'w \<Rightarrow> IOWKIT_HANDLE \<Rightarrow> u8 \<Rightarrow> IOWKIT_SPECIAL_REPORT \<times> 'w" where
  "ReadI2c io w handle count =
     (let report = cleared_report\<lparr>ReportID := 0x03, B0 := count, B1 := I2C_READ_COMMAND\<rparr>;
          w1 = IowKitWrite io w handle report
      in IowKitRead io w1 handle report)"

text \<open>The result is \<^verbatim>\<open>-1\<close> when the acknowledge bit fails, otherwise \<^verbatim>\<open>Bytes[0]\<close> read
  through an \<^verbatim>\<open>int8_t\<close>.\<close>

definition WriteI2C :: "'w iowkit \<Rightarrow> 'w \<Rightarrow> IOWKIT_HANDLE \<Rightarrow> u16 \<Rightarrow> int \<times> 'w" where
  "WriteI2C io w handle command =
     (let report = cleared_report\<lparr>ReportID := 0x02, B0 := 0xC3, B1 := I2C_WRITE_COMMAND,
                     B2 := ucast (drop_bit 8 command AND 0xFF), B3 := ucast (command AND 0xFF)\<rparr>;
          w1 = IowKitWrite io w handle report
      in case IowKitRead io w1 handle report of
           (report, w2) \<Rightarrow>
             if B0 report AND 0x80 \<noteq> 0 then (- 1, w2) else (sint (B0 report), w2))"

text \<open>\<^verbatim>\<open>(Bytes[k] << 8) | Bytes[k+1]\<close> is computed in \<^verbatim>\<open>int\<close> and passed as a
  \<^verbatim>\<open>uint16_t\<close> argument.\<close>

definition word_of_bytes :: "u8 \<Rightarrow> u8 \<Rightarrow> u16" where
  "word_of_bytes hi lo = ucast (push_bit 8 (ucast hi :: u32) OR ucast lo)"

section \<open>GetMeasurements\<close>

text \<open>The dew point expression of the SHT7x datasheet as the code writes it, for
  \<^verbatim>\<open>float\<close> variables \<^verbatim>\<open>Tn\<close>, \<^verbatim>\<open>m\<close>, \<^verbatim>\<open>T\<close>, \<^verbatim>\<open>RH\<close>:
  \<^verbatim>\<open>Tn * ( logf( RH / 100.0 ) + m*T / (Tn + T) ) / ( m - logf( RH / 100.0 ) - m*T / (Tn + T) )\<close>.
  The quotient \<^verbatim>\<open>RH / 100.0\<close> is a \<^verbatim>\<open>double\<close> division whose result is converted to
  \<^verbatim>\<open>float\<close> for \<^verbatim>\<open>logf\<close>; everything else is \<^verbatim>\<open>float\<close> arithmetic. The library function
  \<^verbatim>\<open>logf\<close> is a parameter.\<close>

definition dew_point_expression :: "(real \<Rightarrow> real) \<Rightarrow> real \<Rightarrow> real \<Rightarrow> real \<Rightarrow> real \<Rightarrow> real" where
  "dew_point_expression logf Tn m T RH =
     f32_div
       (f32_mul Tn (f32_add (logf (f32 (f64_div RH 100))) (f32_div (f32_mul m T) (f32_add Tn T))))
       (f32_sub (f32_sub m (logf (f32 (f64_div RH 100)))) (f32_div (f32_mul m T) (f32_add Tn T)))"

text \<open>The three output pointers \<^verbatim>\<open>temperature\<close>, \<^verbatim>\<open>humidity\<close>, \<^verbatim>\<open>dew_point\<close> point to three
  distinct \<^verbatim>\<open>float\<close> objects; their contents go in and come out as a triple.\<close>

type_synonym outputs = "real \<times> real \<times> real"

definition GetMeasurements ::
  "'w iowkit \<Rightarrow> (real \<Rightarrow> real) \<Rightarrow> 'w \<Rightarrow> IOWKIT_HANDLE \<Rightarrow> outputs \<Rightarrow> int \<times> outputs \<times> 'w" where
  "GetMeasurements io logf w handle out =
     (case out of (temperature, humidity, dew_point) \<Rightarrow>
      case WriteI2C io w handle MEASURE_T_RH_CLKSTR of (ack, w1) \<Rightarrow>
      if ack \<noteq> 3 then (- 1, out, w1)
      else case ReadI2c io w1 handle 0x06 of (return_report, w2) \<Rightarrow>
        if \<not> (B0 return_report AND 0x80 \<noteq> 0) then
          if VerifyChecksum (drop 1 (Bytes return_report)) 2 (B3 return_report) \<noteq> 0
          then (- 2, out, w2)
          else
            let temperature = ConvertTemperature (word_of_bytes (B1 return_report) (B2 return_report))
            in if VerifyChecksum (drop 4 (Bytes return_report)) 2 (B6 return_report) \<noteq> 0
               then (- 3, (temperature, humidity, dew_point), w2)
               else
                 let humidity = ConvertHumidity (word_of_bytes (B4 return_report) (B5 return_report))
                 in if humidity > 0
                    then
                      let Tn = (if temperature > 0 then f32 T_PLUS else f32 T_MINUS);
                          m = (if temperature > 0 then f32 M_PLUS else f32 M_MINUS);
                          T = temperature;
                          RH = humidity
                      in (0, (temperature, humidity, dew_point_expression logf Tn m T RH), w2)
                    else (0, (temperature, humidity, dew_point), w2)
        else (- 1, out, w2))"

subsection \<open>The dew point of the specification\<close>

text \<open>The specification's \<^verbatim>\<open>dew_point(temp_c, humidity_pct)\<close>, over the real numbers and with
  the natural logarithm: none when \<open>humidity_pct \<le> 0\<close>; otherwise the coefficient pair is
  (243.12, 17.62) when \<open>temp_c > 0\<close> and (272.62, 22.46) when not, and the value is
  \<open>T_coef * (ln (rh / 100) + m * temp / (T_coef + temp)) / (m - ln (rh / 100) - m * temp / (T_coef + temp))\<close>.\<close>

definition dew_point_spec :: "real \<Rightarrow> real \<Rightarrow> real option" where
  "dew_point_spec temp_c humidity_pct =
     (if humidity_pct \<le> 0 then None
      else
        let T_coef = (if temp_c > 0 then 243.12 else 272.62);
            m = (if temp_c > 0 then 17.62 else 22.46)
        in Some (T_coef * (ln (humidity_pct / 100) + m * temp_c / (T_coef + temp_c))
                 / (m - ln (humidity_pct / 100) - m * temp_c / (T_coef + temp_c))))"

section \<open>UpdateSensorsMeasurements\<close>

record SHTW1_SENSOR =
  stick_serial_number :: u32
  usb_stick_handle :: IOWKIT_HANDLE
  temperature :: real
  humidity :: real
  dew_point :: real
  name :: string
  info :: string

text \<open>The body of the loop for the sensor at index \<open>k\<close> whose handle is not \<^verbatim>\<open>NULL\<close>: every
  path through it ends in a \<^verbatim>\<open>return\<close>. \<^verbatim>\<open>T, RH, DP = 1000;\<close> is a comma expression that
  assigns \<^verbatim>\<open>DP\<close> only.\<close>

definition update_bound_sensor ::
  "'w iowkit \<Rightarrow> (real \<Rightarrow> real) \<Rightarrow> 'w \<Rightarrow> SHTW1_SENSOR list \<Rightarrow> nat \<Rightarrow> int \<times> SHTW1_SENSOR list \<times> 'w" where
  "update_bound_sensor io logf w sensors_table k =
     (let DP = 1000;
          handle = usb_stick_handle (sensors_table ! k)
      in case WriteI2C io w handle MEASURE_T_RH_CLKSTR of (ack, w1) \<Rightarrow>
      if ack \<noteq> 3 then (- 1, sensors_table, w1)
      else case ReadI2c io w1 handle 0x06 of (return_report, w2) \<Rightarrow>
        if \<not> (B0 return_report AND 0x80 \<noteq> 0) then
          if VerifyChecksum (drop 1 (Bytes return_report)) 2 (B3 return_report) \<noteq> 0
          then (- 2, sensors_table, w2)
          else
            let T = ConvertTemperature (word_of_bytes (B1 return_report) (B2 return_report))
            in if VerifyChecksum (drop 4 (Bytes return_report)) 2 (B6 return_report) \<noteq> 0
               then (- 3, sensors_table, w2)
               else
                 let RH = ConvertHumidity (word_of_bytes (B4 return_report) (B5 return_report));
                     DP = (if RH > 0
                           then
                             let Tn = (if T > 0 then f32 T_PLUS else f32 T_MINUS);
                                 m = (if T > 0 then f32 M_PLUS else f32 M_MINUS)
                             in dew_point_expression logf Tn m T RH
                           else DP)
                 in (0, sensors_table[k := (sensors_table ! k)\<lparr>temperature := T, humidity := RH,
                                                               dew_point := DP\<rparr>], w2)
        else (- 1, sensors_table, w2))"

text \<open>\<^verbatim>\<open>while(number_of_sensors) { number_of_sensors--; ... }\<close>. The result is \<open>None\<close> when
  control reaches the closing brace of the function, which has no \<^verbatim>\<open>return\<close> there. The
  table holds at least \<open>number_of_sensors\<close> entries.\<close>

fun UpdateSensorsMeasurements ::
  "'w iowkit \<Rightarrow> (real \<Rightarrow> real) \<Rightarrow> 'w \<Rightarrow> SHTW1_SENSOR list \<Rightarrow> nat
     \<Rightarrow> int option \<times> SHTW1_SENSOR list \<times> 'w" where
  "UpdateSensorsMeasurements io logf w sensors_table 0 = (None, sensors_table, w)"
| "UpdateSensorsMeasurements io logf w sensors_table (Suc number_of_sensors) =
     (if usb_stick_handle (sensors_table ! number_of_sensors) \<noteq> 0
      then case update_bound_sensor io logf w sensors_table number_of_sensors of
             (r, sensors_table', w') \<Rightarrow> (Some r, sensors_table', w')
      else UpdateSensorsMeasurements io logf w sensors_table number_of_sensors)"


section \<open>The measurement in main\<close>




section \<open>LoadConfiguration\<close>

definition SENSOR_BINDING_LIST_START :: string where
  "SENSOR_BINDING_LIST_START = ''sensors:''"

definition BINDING_LIST_STOP :: string where
  "BINDING_LIST_STOP = ''end.''"

definition SEPARATION_CHAR :: char where
  "SEPARATION_CHAR = CHR 0x09"

definition MAX_SENSOR_NAME_LENGTH :: int where
  "MAX_SENSOR_NAME_LENGTH = 30"

definition MIN_CONF_LINE_LENGTH :: int where
  "MIN_CONF_LINE_LENGTH = 4"

definition MAX_CONF_LINE_LENGTH :: int where
  "MAX_CONF_LINE_LENGTH = 40"

text \<open>A character buffer is a list of characters; the C string in it ends before its first
  NUL.\<close>

definition cstr :: "string \<Rightarrow> string" where
  "cstr buf = takeWhile (\<lambda>c. c \<noteq> CHR 0x00) buf"

text \<open>\<^verbatim>\<open>strchr\<close>: the index of the first occurrence in the C string, \<open>None\<close> for the null
  pointer.\<close>

fun strchr :: "string \<Rightarrow> char \<Rightarrow> nat option" where
  "strchr [] c = None"
| "strchr (x # xs) c =
     (if x = CHR 0x00 then None
      else if x = c then Some 0
      else map_option Suc (strchr xs c))"

text \<open>\<^verbatim>\<open>strtol(nptr, NULL, 10)\<close> of the C library: white space is skipped, an optional sign
  and the longest run of decimal digits are read, and the value is clamped to the range of
  a 64-bit \<^verbatim>\<open>long\<close>; without a digit the result is 0.\<close>

definition isspace :: "char \<Rightarrow> bool" where
  "isspace c = (c \<in> {CHR 0x20, CHR 0x09, CHR 0x0A, CHR 0x0B, CHR 0x0C, CHR 0x0D})"

definition isdigit :: "char \<Rightarrow> bool" where
  "isdigit c = (48 \<le> (of_char c :: nat) \<and> (of_char c :: nat) \<le> 57)"

definition digit_value :: "char \<Rightarrow> int" where
  "digit_value c = int (of_char c) - 48"

definition LONG_MAX :: int where
  "LONG_MAX = 2 ^ 63 - 1"

definition LONG_MIN :: int where
  "LONG_MIN = - (2 ^ 63)"

definition strtol10 :: "string \<Rightarrow> int" where
  "strtol10 nptr =
     (let s = dropWhile isspace (cstr nptr);
          negative = (s \<noteq> [] \<and> hd s = CHR ''-'');
          s = (if s \<noteq> [] \<and> (hd s = CHR ''-'' \<or> hd s = CHR ''+'') then tl s else s);
          v = foldl (\<lambda>a c. 10 * a + digit_value c) 0 (takeWhile isdigit s);
          v = (if negative then - v else v)
      in max LONG_MIN (min LONG_MAX v))"

text \<open>What \<^verbatim>\<open>printf\<close> writes, one constructor for each message of the function, with the
  values it prints: the line number, then the character count or the line, and for the
  last one the number string as well.\<close>

datatype message =
    MissingConfigurationFile
  | ReadingConfigurationFile
  | TooFewCharacters u8 int
  | TooManyCharacters u8 int
  | NoDataAfterSeparator u8 string
  | MissingSeparator u8 string
  | NoDataBeforeSeparator u8 string
  | NotDecimalNumber u8 string string

record load_state =
  table_of_sensors :: "SHTW1_SENSOR list"
  sensors_iterator :: u8
  lines_iterator :: u8
  console :: "message list"

text \<open>\<^verbatim>\<open>SHTW1_SENSOR new_sensor = { .temperature = 1000.0, .humidity = 1000.0,
  .dew_point = 1000.0, .info = "ERROR: USB Stick not found!\0" };\<close>\<close>

definition new_sensor :: SHTW1_SENSOR where
  "new_sensor = \<lparr>stick_serial_number = 0, usb_stick_handle = 0, temperature = 1000,
     humidity = 1000, dew_point = 1000, name = [], info = ''ERROR: USB Stick not found!''\<rparr>"

datatype line_step =
    Break load_state
  | Continue load_state
  | Overrun

text \<open>The body of the second \<^verbatim>\<open>while\<close> loop for one line \<open>l\<close>, the characters that
  \<^verbatim>\<open>getline\<close> delivered (\<^verbatim>\<open>read\<close> is their number), with the line feed if the file has
  one there.
  \<^item> \<^verbatim>\<open>strchr(line, SEPARATION_CHAR) - line\<close> is the index of the tab; without a tab the
    code subtracts \<^verbatim>\<open>line\<close> from the null pointer, which C leaves undefined, and the
    \<^verbatim>\<open>int\<close> that results is the argument \<open>null_difference\<close>.
  \<^item> \<^verbatim>\<open>number_string\<close> and \<^verbatim>\<open>new_sensor.name\<close> have \<^verbatim>\<open>MAX_SENSOR_NAME_LENGTH\<close> elements and
    the table has as many as the caller gave it; a write beyond any of them is \<open>Overrun\<close>.\<close>

definition config_line :: "int \<Rightarrow> string \<Rightarrow> load_state \<Rightarrow> line_step" where
  "config_line null_difference l st0 =
     (let read = int (length l);
          st = st0\<lparr>lines_iterator := lines_iterator st0 + 1\<rparr>
      in if read < MIN_CONF_LINE_LENGTH
         then Continue (st\<lparr>console := console st @ [TooFewCharacters (lines_iterator st) read]\<rparr>)
         else if read > MAX_CONF_LINE_LENGTH
         then Continue (st\<lparr>console := console st @ [TooManyCharacters (lines_iterator st) read]\<rparr>)
         else
           let read = read - 1;
               line = l[nat read := CHR 0x00]
           in if cstr line = BINDING_LIST_STOP then Break st
              else
                let separator_index =
                      (case strchr line SEPARATION_CHAR of Some i \<Rightarrow> int i | None \<Rightarrow> null_difference)
                in if separator_index \<ge> read - 1
                   then Continue (st\<lparr>console := console st
                                     @ [NoDataAfterSeparator (lines_iterator st) (cstr line)]\<rparr>)
                   else if separator_index < 0
                   then Continue (st\<lparr>console := console st
                                     @ [MissingSeparator (lines_iterator st) (cstr line)]\<rparr>)
                   else if separator_index = 0
                   then Continue (st\<lparr>console := console st
                                     @ [NoDataBeforeSeparator (lines_iterator st) (cstr line)]\<rparr>)
                   else
                     let line = line[nat separator_index := CHR 0x00]
                     in if read - separator_index - 1 \<ge> MAX_SENSOR_NAME_LENGTH then Overrun
                        else
                          let number_string = cstr (drop (nat separator_index + 1) line)
                          in if strtol10 number_string \<noteq> 0
                             then
                               if separator_index \<ge> MAX_SENSOR_NAME_LENGTH
                                  \<or> unat (sensors_iterator st) \<ge> length (table_of_sensors st)
                               then Overrun
                               else
                                 Continue (st\<lparr>table_of_sensors :=
                                     (table_of_sensors st)[unat (sensors_iterator st) :=
                                        new_sensor\<lparr>stick_serial_number := word_of_int (strtol10 number_string),
                                                   name := cstr (take (nat separator_index + 1) line)\<rparr>],
                                   sensors_iterator := sensors_iterator st + 1\<rparr>)
                             else
                               let line = line[nat separator_index := CHR 0x09]
                               in Continue (st\<lparr>console := console st
                                     @ [NotDecimalNumber (lines_iterator st) (cstr line) number_string]\<rparr>))"

text \<open>The first loop discards lines until one reads \<^verbatim>\<open>sensors:\<close> once its last character is
  overwritten with NUL; the result is what is left of the file.\<close>

fun skip_to_sensors :: "string list \<Rightarrow> string list" where
  "skip_to_sensors [] = []"
| "skip_to_sensors (l # ls) =
     (if cstr (l[length l - 1 := CHR 0x00]) = SENSOR_BINDING_LIST_START then ls
      else skip_to_sensors ls)"

fun sensors_section :: "int \<Rightarrow> string list \<Rightarrow> load_state \<Rightarrow> load_state option" where
  "sensors_section null_difference [] st = Some st"
| "sensors_section null_difference (l # ls) st =
     (case config_line null_difference l st of
        Break st' \<Rightarrow> Some st'
      | Continue st' \<Rightarrow> sensors_section null_difference ls st'
      | Overrun \<Rightarrow> None)"

text \<open>\<open>config_file\<close> is \<open>None\<close> when \<^verbatim>\<open>fopen\<close> fails and otherwise the lines of the file.
  \<^verbatim>\<open>sensors_iterator\<close> is declared without an initial value
  (\<^verbatim>\<open>uint8_t sensors_iterator, lines_iterator = 0;\<close>), so its starting value is an argument.
  The result is \<open>None\<close> after an overrun, otherwise the return value, the table, the value
  stored in \<^verbatim>\<open>*number_of_sensors\<close> and the console output.\<close>

definition LoadConfiguration ::
  "int \<Rightarrow> string list option \<Rightarrow> SHTW1_SENSOR list \<Rightarrow> u8
     \<Rightarrow> (int \<times> SHTW1_SENSOR list \<times> u8 \<times> message list) option" where
  "LoadConfiguration null_difference config_file table sensors_iterator0 =
     (case config_file of
        None \<Rightarrow> Some (- 1, table, 0, [MissingConfigurationFile])
      | Some file_lines \<Rightarrow>
          (case sensors_section null_difference (skip_to_sensors file_lines)
                  \<lparr>table_of_sensors = table, sensors_iterator = sensors_iterator0,
                   lines_iterator = 0, console = [ReadingConfigurationFile]\<rparr> of
             None \<Rightarrow> None
           | Some st \<Rightarrow> Some (0, table_of_sensors st, sensors_iterator st, console st)))"

section \<open>A simulated bridge for concrete runs\<close>

text \<open>The state is the log of the reports written so far. A device answers the report
  that was just written to its handle, which is still in the buffer handed to
  \<^verbatim>\<open>IowKitRead\<close>.\<close>

type_synonym device = "IOWKIT_SPECIAL_REPORT \<Rightarrow> IOWKIT_SPECIAL_REPORT"

definition sim_io :: "(IOWKIT_HANDLE \<Rightarrow> device) \<Rightarrow> (IOWKIT_HANDLE \<times> IOWKIT_SPECIAL_REPORT) list iowkit" where
  "sim_io devices =
     \<lparr>IowKitWrite = (\<lambda>w handle report. w @ [(handle, report)]),
      IowKitRead = (\<lambda>w handle buffer. (devices handle buffer, w))\<rparr>"

text \<open>A sensor that acknowledges the three bytes of a command and answers a read with six
  given bytes, and an adapter whose sensor does not acknowledge.\<close>

definition answering :: "u8 \<Rightarrow> u8 \<Rightarrow> u8 \<Rightarrow> u8 \<Rightarrow> u8 \<Rightarrow> u8 \<Rightarrow> device" where
  "answering d1 d2 d3 d4 d5 d6 request =
     (if ReportID request = 0x02 then cleared_report\<lparr>ReportID := 0x02, B0 := 0x03\<rparr>
      else \<lparr>ReportID = 0x03, B0 = 0x06, B1 = d1, B2 = d2, B3 = d3, B4 = d4, B5 = d5, B6 = d6\<rparr>)"


text \<open>The two reports the measurement code writes: the command
  \<^verbatim>\<open>MEASURE_T_RH_CLKSTR\<close> and the request to read six bytes.\<close>

definition measure_command :: IOWKIT_SPECIAL_REPORT where
  "measure_command = \<lparr>ReportID = 0x02, B0 = 0xC3, B1 = 0xE0, B2 = 0x7C, B3 = 0xA2, B4 = 0, B5 = 0, B6 = 0\<rparr>"

definition read_six :: IOWKIT_SPECIAL_REPORT where
  "read_six = \<lparr>ReportID = 0x03, B0 = 0x06, B1 = 0xE1, B2 = 0, B3 = 0, B4 = 0, B5 = 0, B6 = 0\<rparr>"

text \<open>A stand-in for \<^verbatim>\<open>logf\<close> in concrete runs at 50 percent relative humidity: the binary32
  number next to \<open>ln (1/2)\<close>.\<close>

definition logf_half :: "real \<Rightarrow> real" where
  "logf_half x = - 11629080 / 16777216"

text \<open>Tables and devices for concrete runs: two bound sensors on the handles 1 and 2,
  one bound sensor on the handle 1; devices that all answer with a valid sample (raw
  temperature 0x6666, raw humidity 0x8000), devices of which the one on handle 2 does not
  acknowledge, and devices whose temperature checksum is wrong.\<close>

definition two_sensors :: "SHTW1_SENSOR list" where
  "two_sensors =
     [new_sensor\<lparr>stick_serial_number := 6873, usb_stick_handle := 1, name := ''outer''\<rparr>,
      new_sensor\<lparr>stick_serial_number := 6181, usb_stick_handle := 2, name := ''inner''\<rparr>]"

definition both_answering :: "IOWKIT_HANDLE \<Rightarrow> device" where
  "both_answering handle = answering 0x66 0x66 0x93 0x80 0x00 0xA2"



definition one_sensor :: "SHTW1_SENSOR list" where
  "one_sensor = [new_sensor\<lparr>stick_serial_number := 6873, usb_stick_handle := 1, name := ''outer''\<rparr>]"



definition bad_humidity_checksum :: "IOWKIT_HANDLE \<Rightarrow> device" where
  "bad_humidity_checksum handle = answering 0x66 0x66 0x93 0x80 0x00 0xA3"



text \<open>A configuration file for a concrete run: a comment line, the start of the sensors
  section, a line whose serial field is \<^verbatim>\<open>12abc\<close>, a line whose serial number is 0, and
  the end of the section. Fields are separated by a tab, lines end with a line feed.\<close>

definition sample_configuration :: "string list" where
  "sample_configuration =
     [''# test stand'' @ [CHR 0x0A],
      ''sensors:'' @ [CHR 0x0A],
      ''kitchen'' @ [CHR 0x09] @ ''12abc'' @ [CHR 0x0A],
      ''cellar'' @ [CHR 0x09] @ ''0'' @ [CHR 0x0A],
      ''end.'' @ [CHR 0x0A]]"

section \<open>Properties of VerifyChecksum\<close>

lemma unat_u8_less: "unat (c::u8) < 256"
  using unsigned_less [of c] by simp

lemma msb_test: "((c::u8) AND 0x80 \<noteq> 0) = (128 \<le> unat c)"
proof -
  have "(c AND 2 ^ 7 \<noteq> 0) = bit c 7"
    by (simp only: and_exp_eq_0_iff_not_bit) simp
  also have "bit c 7 = bit (unat c) 7"
    by (simp add: bit_unsigned_iff)
  also have "\<dots> = odd (unat c div 2 ^ 7)"
    by (simp only: bit_iff_odd)
  also have "\<dots> = (128 \<le> unat c)"
  proof -
    have "unat c div 2 ^ 7 = (if 128 \<le> unat c then 1 else 0)"
      using unat_u8_less [of c] by auto
    then show ?thesis by simp
  qed
  finally show ?thesis by simp
qed

lemma shl_unat: "unat (push_bit 1 (ucast (c::u8) :: u32)) = 2 * unat c"
proof -
  have "unat (ucast c :: u32) = unat c"
    using unat_u8_less [of c] by (simp add: unsigned_ucast_eq take_bit_nat_eq_self_iff)
  then show ?thesis
    using unat_u8_less [of c] by (simp add: unat_word_ariths)
qed

lemma ucast_u8_unat: "unat (ucast (w::u32) :: u8) = unat w mod 256"
  by (simp add: unsigned_ucast_eq take_bit_eq_mod)

lemma xor_poly_less:
  assumes "256 \<le> m" "m < 512"
  shows "(m XOR 0x131 :: nat) < 256"
proof -
  have "drop_bit 8 (m XOR 0x131) = drop_bit 8 m XOR drop_bit 8 (0x131::nat)"
    by (rule drop_bit_xor)
  also have "drop_bit 8 m = 1"
    using assms by (simp add: drop_bit_eq_div)
  also have "drop_bit 8 (0x131::nat) = 1"
    by (simp add: drop_bit_eq_div)
  finally have "(m XOR 0x131) div 2 ^ 8 = 0"
    by (simp add: drop_bit_eq_div)
  then show ?thesis
    by (simp add: div_eq_0_iff)
qed

lemma crc_shift_step: "unat (crc_shift c) = crc8_step (unat c)"
proof (cases "128 \<le> unat c")
  case True
  have "unat (push_bit 1 (ucast c :: u32) XOR CRC_POLYNOMIAL)
      = unat (push_bit 1 (ucast c :: u32)) XOR unat CRC_POLYNOMIAL"
    by (rule unsigned_xor_eq)
  also have "\<dots> = (2 * unat c) XOR 0x131"
    by (simp only: shl_unat) (simp add: CRC_POLYNOMIAL_def)
  finally have w: "unat (push_bit 1 (ucast c :: u32) XOR CRC_POLYNOMIAL) = (2 * unat c) XOR 0x131" .
  have "(2 * unat c) XOR 0x131 < 256"
    using True unat_u8_less [of c] by (intro xor_poly_less) auto
  with w have "unat (ucast (push_bit 1 (ucast c :: u32) XOR CRC_POLYNOMIAL) :: u8)
      = (2 * unat c) XOR 0x131"
    by (simp only: ucast_u8_unat) simp
  moreover have "crc_shift c = ucast (push_bit 1 (ucast c :: u32) XOR CRC_POLYNOMIAL)"
    using True by (simp only: crc_shift_def msb_test if_True)
  moreover have "crc8_step (unat c) = (2 * unat c) XOR 0x131"
    using True by (simp add: crc8_step_def)
  ultimately show ?thesis by simp
next
  case False
  then have "unat (ucast (push_bit 1 (ucast c :: u32)) :: u8) = 2 * unat c"
    by (simp only: ucast_u8_unat shl_unat) simp
  moreover have "crc_shift c = ucast (push_bit 1 (ucast c :: u32))"
    using False by (simp only: crc_shift_def msb_test if_False)
  moreover have "crc8_step (unat c) = 2 * unat c"
    using False by (simp add: crc8_step_def)
  ultimately show ?thesis by simp
qed

lemma bit_loop_steps: "unat (bit_loop k c) = crc8_steps k (unat c)"
  by (induction k arbitrary: c) (simp_all add: crc_shift_step)

lemma byte_body: "unat (bit_loop 8 (crc XOR b)) = crc8_byte (unat crc) b"
  by (simp only: bit_loop_steps crc8_byte_def unsigned_xor_eq)

lemma byte_loop_foldl:
  "unat byte_counter \<le> unat bytes_count \<Longrightarrow> unat bytes_count \<le> length data \<Longrightarrow>
   unat (byte_loop data bytes_count byte_counter crc)
     = foldl crc8_byte (unat crc) (drop (unat byte_counter) (take (unat bytes_count) data))"
proof (induction data bytes_count byte_counter crc rule: byte_loop.induct)
  case (1 data bytes_count byte_counter crc)
  show ?case
  proof (cases "byte_counter < bytes_count")
    case True
    then have lt: "unat byte_counter < unat bytes_count"
      by (simp add: word_less_nat_alt)
    have suc: "unat (byte_counter + 1) = Suc (unat byte_counter)"
      using True by (metis (no_types, lifting) Suc_eq_plus1 add.commute add_cancel_left_right
          inc_i inc_le unat_plus_simple unsigned_0 unsigned_1 word_gt_0)
    have "drop (unat byte_counter) (take (unat bytes_count) data)
        = data ! unat byte_counter # drop (Suc (unat byte_counter)) (take (unat bytes_count) data)"
      using lt "1.prems"(2) by (simp add: Cons_nth_drop_Suc [symmetric])
    moreover have "unat (byte_loop data bytes_count (byte_counter + 1)
                           (bit_loop 8 (crc XOR data ! unat byte_counter)))
        = foldl crc8_byte (unat (bit_loop 8 (crc XOR data ! unat byte_counter)))
            (drop (unat (byte_counter + 1)) (take (unat bytes_count) data))"
      using True lt suc "1.prems"(2) by (intro "1.IH") simp_all
    ultimately show ?thesis
      using True suc by (subst byte_loop.simps) (simp add: byte_body)
  next
    case False
    then have "unat byte_counter = unat bytes_count"
      using "1.prems"(1) by (simp add: word_less_nat_alt)
    then show ?thesis
      using False by (subst byte_loop.simps) simp
  qed
qed

lemma byte_loop_compute:
  assumes "unat bytes_count \<le> length data"
  shows "byte_loop data bytes_count 0 0xFF = compute (take (unat bytes_count) data)"
proof -
  have "unat (byte_loop data bytes_count 0 0xFF)
      = foldl crc8_byte 0xFF (take (unat bytes_count) data)"
    using assms byte_loop_foldl [of 0 bytes_count data "0xFF"] by simp
  then have "word_of_nat (unat (byte_loop data bytes_count 0 0xFF)) = compute (take (unat bytes_count) data)"
    by (simp only: compute_def)
  then show ?thesis by simp
qed

lemma VerifyChecksum_eq:
  assumes "unat bytes_count \<le> length data"
  shows "VerifyChecksum data bytes_count c
       = (if c = compute (take (unat bytes_count) data) then 0 else - 2)"
  using byte_loop_compute [OF assms] by (auto simp: VerifyChecksum_def)

lemma compute_BEEF: "compute [0xBE, 0xEF] = 0x92"
  by code_simp

text \<open>Claim C6. The checksum loop of \<^verbatim>\<open>VerifyChecksum\<close> computes the CRC-8 of the
  specification (polynomial 0x131, initial value 0xFF, most significant bit first, eight
  shift steps per byte) over the \<open>bytes_count\<close> bytes it is given; verification of a span
  against its computed checksum succeeds (result 0), and it fails (result -2) for every
  claimed checksum that differs from the computed one.\<close>

theorem VerifyChecksum_crc8:
  assumes "unat bytes_count \<le> length data"
  shows "byte_loop data bytes_count 0 0xFF = compute (take (unat bytes_count) data)
       \<and> VerifyChecksum data bytes_count (compute (take (unat bytes_count) data)) = 0
       \<and> (\<forall>c. c \<noteq> compute (take (unat bytes_count) data)
              \<longrightarrow> VerifyChecksum data bytes_count c = - 2)"
  using byte_loop_compute [OF assms] VerifyChecksum_eq [OF assms] by simp

theorem VerifyChecksum_crc8_witness:
  "unat (2::u8) \<le> length [0xBE, 0xEF :: u8]
   \<and> byte_loop [0xBE, 0xEF] 2 0 0xFF = 0x92
   \<and> VerifyChecksum [0xBE, 0xEF] 2 0x92 = 0
   \<and> 0x93 \<noteq> compute [0xBE, 0xEF]
   \<and> VerifyChecksum [0xBE, 0xEF] 2 0x93 = - 2"
  using VerifyChecksum_crc8 [of 2 "[0xBE, 0xEF]"] by (simp add: compute_BEEF)

section \<open>Rounding leaves the conversions exact\<close>

text \<open>A real number \<open>m * 2^k\<close> with \<open>|m| < 2^p\<close> and \<open>k\<close> not below the least exponent is
  a floating-point number of precision \<open>p\<close>, and rounding returns it unchanged.\<close>

lemma bitlen_floor_bounds:
  fixes y :: real
  assumes "1 \<le> y"
  shows "0 \<le> bitlen \<lfloor>y\<rfloor> - 1" and "2 powi (bitlen \<lfloor>y\<rfloor> - 1) \<le> y" and "y < 2 powi (bitlen \<lfloor>y\<rfloor>)"
proof -
  have n: "0 < \<lfloor>y\<rfloor>" using assms by simp
  have b: "2 ^ nat (bitlen \<lfloor>y\<rfloor> - 1) \<le> \<lfloor>y\<rfloor>" "\<lfloor>y\<rfloor> < 2 ^ nat (bitlen \<lfloor>y\<rfloor>)"
    using bitlen_bounds [OF n] by simp_all
  show k: "0 \<le> bitlen \<lfloor>y\<rfloor> - 1"
    using n by (simp add: bitlen_alt_def)
  have "(2::real) ^ nat (bitlen \<lfloor>y\<rfloor> - 1) \<le> of_int \<lfloor>y\<rfloor>"
    using b(1) by (metis of_int_le_iff of_int_numeral of_int_power)
  also have "\<dots> \<le> y" by simp
  finally show "2 powi (bitlen \<lfloor>y\<rfloor> - 1) \<le> y"
    using k by (simp add: power_int_def)
  have "\<lfloor>y\<rfloor> + 1 \<le> 2 ^ nat (bitlen \<lfloor>y\<rfloor>)" using b(2) by simp
  then have "of_int (\<lfloor>y\<rfloor> + 1) \<le> (2::real) ^ nat (bitlen \<lfloor>y\<rfloor>)"
    by (metis of_int_le_iff of_int_numeral of_int_power)
  moreover have "y < of_int (\<lfloor>y\<rfloor> + 1)" by linarith
  ultimately have "y < 2 ^ nat (bitlen \<lfloor>y\<rfloor>)" by linarith
  then show "y < 2 powi (bitlen \<lfloor>y\<rfloor>)"
    using k by (simp add: power_int_def)
qed

lemma binade_le:
  assumes "x \<noteq> 0"
  shows "2 powi (binade x) \<le> \<bar>x\<bar>"
proof (cases "1 \<le> \<bar>x\<bar>")
  case True
  then show ?thesis
    using bitlen_floor_bounds(2) [of "\<bar>x\<bar>"] by (simp add: binade_def Let_def)
next
  case False
  define y where "y = 1 / \<bar>x\<bar>"
  define k where "k = bitlen \<lfloor>y\<rfloor> - 1"
  have a: "0 < \<bar>x\<bar>" using assms by simp
  have y1: "1 \<le> y" using False a by (simp add: y_def)
  have ax: "\<bar>x\<bar> = 1 / y" by (simp add: y_def)
  show ?thesis
  proof (cases "\<bar>x\<bar> * 2 powi k = 1")
    case True
    then have "binade x = - k" using False by (simp add: binade_def Let_def k_def y_def)
    moreover have "2 powi (- k) = \<bar>x\<bar>"
      using True by (simp add: power_int_minus field_simps)
    ultimately show ?thesis by simp
  next
    case ne: False
    then have "binade x = - k - 1" using False by (simp add: binade_def Let_def k_def y_def)
    then have "binade x = - (k + 1)" by simp
    moreover have "y < 2 powi (k + 1)"
      using bitlen_floor_bounds(3) [OF y1] by (simp add: k_def)
    then have "1 / 2 powi (k + 1) < 1 / y"
      using y1 by (intro divide_strict_left_mono) (auto intro: mult_pos_pos)
    then have "2 powi (- (k + 1)) \<le> \<bar>x\<bar>"
      by (simp only: ax power_int_minus inverse_eq_divide)
    ultimately show ?thesis by simp
  qed
qed

lemma round_half_even_int: "round_half_even (of_int n) = n"
  by (simp add: round_half_even_def)

lemma fround_exact:
  assumes "x = of_int m * 2 powi k" "\<bar>m\<bar> < 2 ^ p" "emin \<le> k"
  shows "fround p emin x = x"
proof (cases "x = 0")
  case True
  then show ?thesis by (simp add: fround_def)
next
  case False
  define e where "e = max emin (binade x - int p + 1)"
  have "2 powi (binade x) \<le> \<bar>x\<bar>" using False by (rule binade_le)
  also have "\<bar>x\<bar> = of_int \<bar>m\<bar> * 2 powi k"
    by (simp add: assms(1) abs_mult)
  also have "\<dots> < 2 ^ p * 2 powi k"
  proof -
    have "(of_int \<bar>m\<bar> :: real) < 2 ^ p" using assms(2)
      by (metis of_int_less_iff of_int_numeral of_int_power)
    then show ?thesis by (intro mult_strict_right_mono) simp_all
  qed
  also have "\<dots> = 2 powi (int p + k)"
    by (simp add: power_int_add)
  finally have lt: "(2::real) powi (binade x) < 2 powi (int p + k)" .
  have "binade x < int p + k"
  proof (rule ccontr)
    assume "\<not> binade x < int p + k"
    then have "(2::real) powi (int p + k) \<le> 2 powi (binade x)"
      by (intro power_int_increasing) simp_all
    with lt show False by simp
  qed
  then have ek: "e \<le> k" using assms(3) by (simp add: e_def)
  have split: "(2::real) powi k = 2 powi (k - e) * 2 powi e"
    by (simp flip: power_int_add)
  have int_val: "of_int m * (2::real) powi (k - e) = of_int (m * 2 ^ nat (k - e))"
    using ek by (simp add: power_int_def)
  have "x / 2 powi e = of_int m * 2 powi (k - e)"
    by (simp add: assms(1) split)
  then have "round_half_even (x / 2 powi e) = m * 2 ^ nat (k - e)"
    by (simp only: int_val round_half_even_int)
  then have "of_int (round_half_even (x / 2 powi e)) * 2 powi e
           = of_int m * (2::real) powi (k - e) * 2 powi e"
    by (simp only: int_val)
  also have "\<dots> = x"
    by (simp add: assms(1) split)
  finally show ?thesis using False by (simp add: fround_def e_def Let_def)
qed

lemma f32_scaled_int:
  assumes "\<bar>m\<bar> < 16777216" "- 149 \<le> k"
  shows "f32 (of_int m * 2 powi k) = of_int m * 2 powi k"
  unfolding f32_def using assms by (intro fround_exact [where m = m and k = k]) simp_all

lemma ConvertTemperature_eq:
  "ConvertTemperature sensor_value = 175 * real (unat sensor_value) / 65536 - 45"
proof -
  define n where "n = int (unat sensor_value)"
  have n: "0 \<le> n" "n < 65536"
    using unsigned_less [of sensor_value] by (simp_all add: n_def)
  have rn: "real (unat sensor_value) = of_int n" by (simp add: n_def)
  have a: "f32 (of_int n) = of_int n"
    using f32_scaled_int [of n 0] n by simp
  have b: "f32 (175 * of_int n) = 175 * of_int n"
    using f32_scaled_int [of "175 * n" 0] n by simp
  have c: "f32 (175 * of_int n / 65536) = 175 * of_int n / 65536"
    using f32_scaled_int [of "175 * n" "- 16"] n by (simp add: power_int_minus field_simps)
  have d: "f32 (175 * of_int n / 65536 - 45) = 175 * of_int n / 65536 - 45"
    using f32_scaled_int [of "175 * n - 2949120" "- 16"] n by (simp add: power_int_minus field_simps)
  show ?thesis
    by (simp only: ConvertTemperature_def f32_sub_def f32_div_def f32_mul_def rn a b c d)
qed

lemma ConvertHumidity_eq:
  "ConvertHumidity sensor_value = 100 * real (unat sensor_value) / 65536"
proof -
  define n where "n = int (unat sensor_value)"
  have n: "0 \<le> n" "n < 65536"
    using unsigned_less [of sensor_value] by (simp_all add: n_def)
  have rn: "real (unat sensor_value) = of_int n" by (simp add: n_def)
  have a: "f32 (of_int n) = of_int n"
    using f32_scaled_int [of n 0] n by simp
  have b: "f32 (100 * of_int n) = 100 * of_int n"
    using f32_scaled_int [of "100 * n" 0] n by simp
  have c: "f32 (100 * of_int n / 65536) = 100 * of_int n / 65536"
    using f32_scaled_int [of "100 * n" "- 16"] n by (simp add: power_int_minus field_simps)
  show ?thesis
    by (simp only: ConvertHumidity_def f32_div_def f32_mul_def rn a b c)
qed

section \<open>Properties of GetMeasurements\<close>

lemma VerifyChecksum_temperature_word:
  "VerifyChecksum (drop (Suc 0) (Bytes r)) 2 (B3 r) = (if B3 r = compute [B1 r, B2 r] then 0 else - 2)"
  using VerifyChecksum_eq [of 2 "drop 1 (Bytes r)" "B3 r"] by (simp add: Bytes_def)

lemma VerifyChecksum_humidity_word:
  "VerifyChecksum (drop 4 (Bytes r)) 2 (B6 r) = (if B6 r = compute [B4 r, B5 r] then 0 else - 2)"
  using VerifyChecksum_eq [of 2 "drop 4 (Bytes r)" "B6 r"] by (simp add: Bytes_def)

lemma unat_word_of_bytes: "unat (word_of_bytes hi lo) = 256 * unat hi + unat lo"
proof -
  have hi: "unat hi < 256" and lo: "unat lo < 256"
    by (rule unat_u8_less)+
  have a: "unat (push_bit 8 (ucast hi :: u32)) = push_bit 8 (unat hi)"
  proof -
    have "unat (ucast hi :: u32) = unat hi"
      using hi by (simp add: unsigned_ucast_eq take_bit_nat_eq_self_iff)
    moreover have "take_bit 32 (push_bit 8 (unat hi)) = push_bit 8 (unat hi)"
      using hi by (simp add: take_bit_nat_eq_self_iff push_bit_eq_mult)
    ultimately show ?thesis
      by (simp only: unsigned_push_bit_eq) simp
  qed
  have lo8: "take_bit 8 (unat lo) = unat lo"
    using lo by (intro take_bit_nat_eq_self) simp
  have "take_bit 32 (unat lo) = unat lo"
    using lo by (intro take_bit_nat_eq_self) simp
  then have b: "unat (ucast lo :: u32) = take_bit 8 (unat lo)"
    by (simp add: unsigned_ucast_eq lo8)
  have "take_bit 8 (unat lo) AND push_bit 8 (unat hi) = 0"
    by (simp add: bit_eq_iff bit_simps)
  then have c: "take_bit 8 (unat lo) + push_bit 8 (unat hi) = take_bit 8 (unat lo) OR push_bit 8 (unat hi)"
    by (rule disjunctive_add_eq_or)
  have "unat (push_bit 8 (ucast hi :: u32) OR ucast lo) = push_bit 8 (unat hi) OR take_bit 8 (unat lo)"
    by (simp only: unsigned_or_eq a b)
  also have "\<dots> = 256 * unat hi + unat lo"
    using c by (simp add: push_bit_eq_mult lo8 ac_simps)
  finally have d: "unat (push_bit 8 (ucast hi :: u32) OR ucast lo) = 256 * unat hi + unat lo" .
  have "256 * unat hi + unat lo < 2 ^ 16"
    using hi lo by simp
  then show ?thesis
    unfolding word_of_bytes_def
    by (simp only: unsigned_ucast_eq d) (simp add: take_bit_nat_eq_self_iff)
qed

lemma sim_WriteI2C:
  "WriteI2C (sim_io devices) w handle MEASURE_T_RH_CLKSTR
     = (if B0 (devices handle measure_command) AND 0x80 \<noteq> 0 then - 1
        else sint (B0 (devices handle measure_command)), w @ [(handle, measure_command)])"
  by (simp add: WriteI2C_def sim_io_def measure_command_def cleared_report_def
      MEASURE_T_RH_CLKSTR_def I2C_WRITE_COMMAND_def Let_def)

lemma sim_ReadI2c:
  "ReadI2c (sim_io devices) w handle 0x06 = (devices handle read_six, w @ [(handle, read_six)])"
  by (simp add: ReadI2c_def sim_io_def read_six_def cleared_report_def I2C_READ_COMMAND_def Let_def)

lemma answering_command: "answering d1 d2 d3 d4 d5 d6 measure_command = cleared_report\<lparr>ReportID := 0x02, B0 := 0x03\<rparr>"
  by (simp add: answering_def measure_command_def)

lemma answering_read:
  "answering d1 d2 d3 d4 d5 d6 read_six
     = \<lparr>ReportID = 0x03, B0 = 0x06, B1 = d1, B2 = d2, B3 = d3, B4 = d4, B5 = d5, B6 = d6\<rparr>"
  by (simp add: answering_def read_six_def)

lemma sim_answering_write:
  "WriteI2C (sim_io (\<lambda>h. answering d1 d2 d3 d4 d5 d6)) w handle MEASURE_T_RH_CLKSTR
     = (3, w @ [(handle, measure_command)])"
  by (simp add: sim_WriteI2C answering_command cleared_report_def)

lemma sim_answering_read:
  "ReadI2c (sim_io (\<lambda>h. answering d1 d2 d3 d4 d5 d6)) w handle 0x06
     = (\<lparr>ReportID = 0x03, B0 = 0x06, B1 = d1, B2 = d2, B3 = d3, B4 = d4, B5 = d5, B6 = d6\<rparr>,
        w @ [(handle, read_six)])"
  by (simp add: sim_ReadI2c answering_read)

lemma compute_8000: "compute [0x80, 0x00] = 0xA2"
  by code_simp

lemma compute_0000: "compute [0x00, 0x00] = 0x81"
  by code_simp

lemma compute_6666: "compute [0x66, 0x66] = 0x93"
  by code_simp

lemma GetMeasurements_reply:
  assumes "WriteI2C io w handle MEASURE_T_RH_CLKSTR = (3, w1)"
    and "ReadI2c io w1 handle 0x06 = (reply, w2)"
    and "B0 reply AND 0x80 = 0"
  shows "GetMeasurements io logf w handle (t0, h0, d0) =
     (if B3 reply \<noteq> compute [B1 reply, B2 reply] then (- 2, (t0, h0, d0), w2)
      else if B6 reply \<noteq> compute [B4 reply, B5 reply]
      then (- 3, (ConvertTemperature (word_of_bytes (B1 reply) (B2 reply)), h0, d0), w2)
      else (0, (ConvertTemperature (word_of_bytes (B1 reply) (B2 reply)),
                ConvertHumidity (word_of_bytes (B4 reply) (B5 reply)),
                if ConvertHumidity (word_of_bytes (B4 reply) (B5 reply)) > 0
                then dew_point_expression logf
                       (if ConvertTemperature (word_of_bytes (B1 reply) (B2 reply)) > 0
                        then f32 T_PLUS else f32 T_MINUS)
                       (if ConvertTemperature (word_of_bytes (B1 reply) (B2 reply)) > 0
                        then f32 M_PLUS else f32 M_MINUS)
                       (ConvertTemperature (word_of_bytes (B1 reply) (B2 reply)))
                       (ConvertHumidity (word_of_bytes (B4 reply) (B5 reply)))
                else d0), w2))"
  using assms
  by (simp add: GetMeasurements_def VerifyChecksum_temperature_word VerifyChecksum_humidity_word Let_def)

text \<open>Claim C4. When the measure command is acknowledged and the six-byte reply arrives,
  and the checksum of the temperature word (\<^verbatim>\<open>Bytes[1]\<close>, \<^verbatim>\<open>Bytes[2]\<close>) differs from
  \<^verbatim>\<open>Bytes[3]\<close>, \<^verbatim>\<open>GetMeasurements\<close> returns -2 and leaves all three outputs as they were,
  whatever the humidity bytes are: nothing of the humidity path has run.\<close>

theorem GetMeasurements_temperature_checksum:
  assumes "WriteI2C io w handle MEASURE_T_RH_CLKSTR = (3, w1)"
    and "ReadI2c io w1 handle 0x06 = (reply, w2)"
    and "B0 reply AND 0x80 = 0"
    and "B3 reply \<noteq> compute [B1 reply, B2 reply]"
  shows "GetMeasurements io logf w handle (temperature0, humidity0, dew_point0)
          = (- 2, (temperature0, humidity0, dew_point0), w2)"
  using assms(4) by (simp add: GetMeasurements_reply [OF assms(1-3)])

theorem GetMeasurements_temperature_checksum_witness:
  "WriteI2C (sim_io (\<lambda>h. answering 0xBE 0xEF 0x93 0x80 0x00 0xA2)) [] 1 MEASURE_T_RH_CLKSTR
     = (3, [(1, measure_command)])
   \<and> ReadI2c (sim_io (\<lambda>h. answering 0xBE 0xEF 0x93 0x80 0x00 0xA2)) [(1, measure_command)] 1 0x06
     = (\<lparr>ReportID = 0x03, B0 = 0x06, B1 = 0xBE, B2 = 0xEF, B3 = 0x93, B4 = 0x80, B5 = 0x00, B6 = 0xA2\<rparr>,
        [(1, measure_command), (1, read_six)])
   \<and> (0x06 :: u8) AND 0x80 = 0
   \<and> (0x93 :: u8) \<noteq> compute [0xBE, 0xEF]
   \<and> GetMeasurements (sim_io (\<lambda>h. answering 0xBE 0xEF 0x93 0x80 0x00 0xA2)) ln [] 1 (20, 50, 10)
     = (- 2, (20, 50, 10), [(1, measure_command), (1, read_six)])"
proof -
  let ?io = "sim_io (\<lambda>h. answering 0xBE 0xEF 0x93 0x80 0x00 0xA2)"
  let ?reply = "\<lparr>ReportID = 0x03, B0 = 0x06, B1 = 0xBE, B2 = 0xEF, B3 = 0x93, B4 = 0x80, B5 = 0x00, B6 = 0xA2\<rparr>"
  have a: "WriteI2C ?io [] 1 MEASURE_T_RH_CLKSTR = (3, [(1, measure_command)])"
    by (simp add: sim_answering_write)
  have b: "ReadI2c ?io [(1, measure_command)] 1 0x06 = (?reply, [(1, measure_command), (1, read_six)])"
    by (simp add: sim_answering_read)
  have c: "B0 ?reply AND 0x80 = 0" by simp
  have d: "B3 ?reply \<noteq> compute [B1 ?reply, B2 ?reply]" by (simp add: compute_BEEF)
  from GetMeasurements_temperature_checksum [OF a b c d, of ln 20 50 10] a b d
  show ?thesis by simp
qed

text \<open>When the temperature word passes its checksum and the humidity word
  (\<^verbatim>\<open>Bytes[4]\<close>, \<^verbatim>\<open>Bytes[5]\<close>) fails against \<^verbatim>\<open>Bytes[6]\<close>, \<^verbatim>\<open>GetMeasurements\<close> returns -3,
  the temperature output holds the converted temperature \<open>175 * raw / 65536 - 45\<close>, and
  the humidity and dew point outputs are as they were.\<close>

lemma GetMeasurements_humidity_checksum:
  assumes "WriteI2C io w handle MEASURE_T_RH_CLKSTR = (3, w1)"
    and "ReadI2c io w1 handle 0x06 = (reply, w2)"
    and "B0 reply AND 0x80 = 0"
    and "B3 reply = compute [B1 reply, B2 reply]"
    and "B6 reply \<noteq> compute [B4 reply, B5 reply]"
  shows "GetMeasurements io logf w handle (temperature0, humidity0, dew_point0)
           = (- 3, (ConvertTemperature (word_of_bytes (B1 reply) (B2 reply)), humidity0, dew_point0), w2)
       \<and> ConvertTemperature (word_of_bytes (B1 reply) (B2 reply))
           = 175 * real (256 * unat (B1 reply) + unat (B2 reply)) / 65536 - 45"
  using assms(4,5)
  by (simp add: GetMeasurements_reply [OF assms(1-3)] ConvertTemperature_eq unat_word_of_bytes)

text \<open>Claim C10. When both checksums pass and the converted humidity is not positive,
  \<^verbatim>\<open>GetMeasurements\<close> returns 0, writes the temperature and the humidity outputs, and
  leaves the dew point output with the value the caller had there.\<close>

theorem GetMeasurements_no_dew_point:
  assumes "WriteI2C io w handle MEASURE_T_RH_CLKSTR = (3, w1)"
    and "ReadI2c io w1 handle 0x06 = (reply, w2)"
    and "B0 reply AND 0x80 = 0"
    and "B3 reply = compute [B1 reply, B2 reply]"
    and "B6 reply = compute [B4 reply, B5 reply]"
    and "ConvertHumidity (word_of_bytes (B4 reply) (B5 reply)) \<le> 0"
  shows "GetMeasurements io logf w handle (temperature0, humidity0, dew_point0)
           = (0, (ConvertTemperature (word_of_bytes (B1 reply) (B2 reply)),
                  ConvertHumidity (word_of_bytes (B4 reply) (B5 reply)),
                  dew_point0), w2)"
  using assms(4-6) by (simp add: GetMeasurements_reply [OF assms(1-3)])

theorem GetMeasurements_no_dew_point_witness:
  "WriteI2C (sim_io (\<lambda>h. answering 0xBE 0xEF 0x92 0x00 0x00 0x81)) [] 1 MEASURE_T_RH_CLKSTR
     = (3, [(1, measure_command)])
   \<and> ReadI2c (sim_io (\<lambda>h. answering 0xBE 0xEF 0x92 0x00 0x00 0x81)) [(1, measure_command)] 1 0x06
     = (\<lparr>ReportID = 0x03, B0 = 0x06, B1 = 0xBE, B2 = 0xEF, B3 = 0x92, B4 = 0x00, B5 = 0x00, B6 = 0x81\<rparr>,
        [(1, measure_command), (1, read_six)])
   \<and> (0x06 :: u8) AND 0x80 = 0
   \<and> (0x92 :: u8) = compute [0xBE, 0xEF]
   \<and> (0x81 :: u8) = compute [0x00, 0x00]
   \<and> ConvertHumidity (word_of_bytes 0x00 0x00) \<le> 0
   \<and> GetMeasurements (sim_io (\<lambda>h. answering 0xBE 0xEF 0x92 0x00 0x00 0x81)) ln [] 1 (20, 50, 10)
     = (0, (5604705 / 65536, 0, 10), [(1, measure_command), (1, read_six)])"
proof -
  let ?io = "sim_io (\<lambda>h. answering 0xBE 0xEF 0x92 0x00 0x00 0x81)"
  let ?reply = "\<lparr>ReportID = 0x03, B0 = 0x06, B1 = 0xBE, B2 = 0xEF, B3 = 0x92, B4 = 0x00, B5 = 0x00, B6 = 0x81\<rparr>"
  have a: "WriteI2C ?io [] 1 MEASURE_T_RH_CLKSTR = (3, [(1, measure_command)])"
    by (simp add: sim_answering_write)
  have b: "ReadI2c ?io [(1, measure_command)] 1 0x06 = (?reply, [(1, measure_command), (1, read_six)])"
    by (simp add: sim_answering_read)
  have c: "B0 ?reply AND 0x80 = 0" by simp
  have d: "B3 ?reply = compute [B1 ?reply, B2 ?reply]" by (simp add: compute_BEEF)
  have e: "B6 ?reply = compute [B4 ?reply, B5 ?reply]" by (simp add: compute_0000)
  have f: "ConvertHumidity (word_of_bytes (B4 ?reply) (B5 ?reply)) \<le> 0"
    by (simp add: ConvertHumidity_eq unat_word_of_bytes)
  from GetMeasurements_no_dew_point [OF a b c d e f, of ln 20 50 10] a b d e f
  show ?thesis by (simp add: ConvertHumidity_eq ConvertTemperature_eq unat_word_of_bytes)
qed

section \<open>The dew point\<close>

lemma coefficient_values:
  "f32 T_PLUS = 1991639 / 8192" "f32 M_PLUS = 9237955 / 524288"
  "f32 T_MINUS = 2233303 / 8192" "f32 M_MINUS = 2943877 / 131072"
  by code_simp+

lemma unat_u16_less: "unat (v::u16) < 65536"
  using unsigned_less [of v] by simp

lemma ConvertTemperature_bounds: "- 45 \<le> ConvertTemperature v" "ConvertTemperature v < 130"
proof -
  have "real (unat v) < 65536"
    using unat_u16_less [of v] by linarith
  then show "- 45 \<le> ConvertTemperature v" "ConvertTemperature v < 130"
    unfolding ConvertTemperature_eq by linarith+
qed

lemma ConvertHumidity_bounds: "0 \<le> ConvertHumidity v" "ConvertHumidity v < 100"
proof -
  have "real (unat v) < 65536"
    using unat_u16_less [of v] by linarith
  then show "0 \<le> ConvertHumidity v" "ConvertHumidity v < 100"
    unfolding ConvertHumidity_eq by linarith+
qed

text \<open>Rounding to nearest moves a number by at most half a unit in the last place: by at
  most \<open>|x| / 2^p\<close> in the normal range and by at most \<open>2^(emin - 1)\<close> below it.\<close>

lemma round_half_even_error: "\<bar>of_int (round_half_even y) - y\<bar> \<le> 1 / 2"
proof -
  have "of_int \<lfloor>y\<rfloor> \<le> y" "y < of_int \<lfloor>y\<rfloor> + 1" by linarith+
  then show ?thesis
    by (auto simp: round_half_even_def Let_def)
qed

lemma fround_error:
  "\<bar>fround p emin x - x\<bar> \<le> \<bar>x\<bar> / 2 ^ p + 2 powi (emin - 1)"
proof (cases "x = 0")
  case True
  then show ?thesis by (simp add: fround_def)
next
  case False
  define e where "e = max emin (binade x - int p + 1)"
  define r where "r = (of_int (round_half_even (x / 2 powi e)) :: real)"
  have f: "fround p emin x = r * 2 powi e"
    using False by (simp add: fround_def e_def r_def Let_def)
  have "r * 2 powi e - x = (r - x / 2 powi e) * 2 powi e"
    by (simp add: field_simps)
  then have "\<bar>r * 2 powi e - x\<bar> = \<bar>r - x / 2 powi e\<bar> * 2 powi e"
    by (simp add: abs_mult)
  also have "\<dots> \<le> 1 / 2 * 2 powi e"
    using round_half_even_error [of "x / 2 powi e"]
    by (intro mult_right_mono) (simp_all add: r_def)
  also have "\<dots> = 2 powi (e - 1)"
    by (simp add: power_int_diff)
  finally have err: "\<bar>fround p emin x - x\<bar> \<le> 2 powi (e - 1)"
    by (simp add: f)
  show ?thesis
  proof (cases "e = emin")
    case True
    then show ?thesis using err by (smt (verit) divide_nonneg_nonneg abs_ge_zero zero_le_power zero_le_numeral)
  next
    case ne: False
    then have "e - 1 = binade x - int p" by (simp add: e_def max_def split: if_splits)
    then have "(2::real) powi (e - 1) = 2 powi (binade x) / 2 ^ p"
      by (simp add: power_int_diff)
    also have "\<dots> \<le> \<bar>x\<bar> / 2 ^ p"
      using binade_le [OF False] by (intro divide_right_mono) simp_all
    finally have "(2::real) powi (e - 1) \<le> \<bar>x\<bar> / 2 ^ p" .
    moreover have "(0::real) \<le> 2 powi (emin - 1)" by simp
    ultimately show ?thesis using err by linarith
  qed
qed

lemma f32_error: "\<bar>f32 x - x\<bar> \<le> \<bar>x\<bar> / 16777216 + 1 / 2 ^ 150"
  using fround_error [of 24 "- 149" x] by (simp add: f32_def power_int_minus inverse_eq_divide)

text \<open>How the errors of the operands pass through a product and a quotient.\<close>

lemma f32_error_bound:
  assumes "\<bar>x\<bar> \<le> M" "1 \<le> M"
  shows "\<bar>f32 x - x\<bar> \<le> M * 6 / 100000000"
proof -
  have "(1::real) / 2 ^ 150 \<le> 1 / 10000000000"
    by simp
  moreover have "\<bar>x\<bar> / 16777216 \<le> M / 16777216"
    using assms(1) by simp
  ultimately show ?thesis
    using f32_error [of x] assms(2) by linarith
qed

lemma f32_step:
  assumes "\<bar>x - x0\<bar> \<le> e" "\<bar>x\<bar> \<le> M" "1 \<le> M"
  shows "\<bar>f32 x - x0\<bar> \<le> e + M * 6 / 100000000"
  using f32_error_bound [OF assms(2,3)] assms(1) by linarith

lemma abs_mult_le:
  fixes a b :: real
  assumes "\<bar>a\<bar> \<le> A" "\<bar>b\<bar> \<le> B"
  shows "\<bar>a * b\<bar> \<le> A * B"
  unfolding abs_mult using assms by (intro mult_mono) simp_all

lemma product_error:
  fixes a b :: real
  assumes "\<bar>a - a0\<bar> \<le> ea" "\<bar>b - b0\<bar> \<le> eb" "\<bar>a\<bar> \<le> Ma" "\<bar>b0\<bar> \<le> Mb"
  shows "\<bar>a * b - a0 * b0\<bar> \<le> Ma * eb + ea * Mb"
proof -
  have "a * b - a0 * b0 = a * (b - b0) + (a - a0) * b0"
    by (simp add: algebra_simps)
  moreover have "\<bar>a * (b - b0)\<bar> \<le> Ma * eb"
    using assms(3,2) by (rule abs_mult_le)
  moreover have "\<bar>(a - a0) * b0\<bar> \<le> ea * Mb"
    using assms(1,4) by (rule abs_mult_le)
  ultimately show ?thesis by linarith
qed

lemma quotient_bound:
  fixes a b :: real
  assumes "\<bar>a\<bar> \<le> A" "0 < c" "c \<le> \<bar>b\<bar>"
  shows "\<bar>a / b\<bar> \<le> A / c"
proof -
  have "\<bar>a / b\<bar> = \<bar>a\<bar> / \<bar>b\<bar>" by simp
  also have "\<dots> \<le> A / \<bar>b\<bar>"
    using assms(1) by (intro divide_right_mono) simp_all
  also have "\<dots> \<le> A / c"
    using assms by (intro divide_left_mono) (auto intro: mult_pos_pos)
  finally show ?thesis .
qed

lemma quotient_error:
  fixes a b :: real
  assumes "\<bar>a - a0\<bar> \<le> ea" "\<bar>b - b0\<bar> \<le> eb" "0 < c" "c \<le> b" "b0 \<noteq> 0" "\<bar>a0 / b0\<bar> \<le> Mq"
  shows "\<bar>a / b - a0 / b0\<bar> \<le> (ea + Mq * eb) / c"
proof -
  have b: "b \<noteq> 0" "c \<le> \<bar>b\<bar>" using assms(3,4) by simp_all
  have "a / b - a0 / b0 = ((a - a0) - a0 / b0 * (b - b0)) / b"
    using b(1) assms(5) by (simp add: field_simps)
  moreover have "\<bar>(a - a0) - a0 / b0 * (b - b0)\<bar> \<le> ea + Mq * eb"
    using abs_mult_le [OF assms(6,2)] assms(1) by linarith
  ultimately show ?thesis
    using quotient_bound [OF _ assms(3) b(2)] by simp
qed

text \<open>The binary32 evaluation of the dew point expression against the same expression over
  the real numbers, with coefficients \<open>Tn0\<close>, \<open>m0\<close> near \<open>Tn\<close>, \<open>m\<close> and a logarithm \<open>l\<close>
  within \<open>1 / 100000\<close> of the value \<open>L\<close> that \<^verbatim>\<open>logf\<close> returned. The bounds assumed on the
  operands are those of the two coefficient pairs on the range of the sensor.\<close>

lemma dew_point_error:
  fixes Tn m T L Tn0 m0 l :: real
  assumes Tn: "\<bar>Tn - Tn0\<bar> \<le> 1 / 100000" and m: "\<bar>m - m0\<bar> \<le> 1 / 1000000"
    and Tn0: "243 \<le> Tn0" "Tn0 \<le> 273" and m0: "17 \<le> m0" "m0 \<le> 23"
    and T: "\<bar>T\<bar> \<le> 130" and S0: "227 \<le> Tn0 + T"
    and q0: "\<bar>m0 * T / (Tn0 + T)\<bar> \<le> 19 / 2" and d0: "8 \<le> m0 - m0 * T / (Tn0 + T)"
    and l: "- 16 \<le> l" "l \<le> 0" and L: "\<bar>L - l\<bar> \<le> 1 / 100000"
  shows "\<bar>f32_div (f32_mul Tn (f32_add L (f32_div (f32_mul m T) (f32_add Tn T))))
              (f32_sub (f32_sub m L) (f32_div (f32_mul m T) (f32_add Tn T)))
          - Tn0 * (l + m0 * T / (Tn0 + T)) / (m0 - l - m0 * T / (Tn0 + T))\<bar> \<le> 1 / 250"
proof -
  define P where "P = f32 (m * T)"
  define S where "S = f32 (Tn + T)"
  define Q where "Q = f32 (P / S)"
  define A where "A = f32 (L + Q)"
  define N where "N = f32 (Tn * A)"
  define B where "B = f32 (m - L)"
  define D where "D = f32 (B - Q)"
  define q where "q = m0 * T / (Tn0 + T)"
  have q: "\<bar>q\<bar> \<le> 19 / 2" "8 \<le> m0 - q"
    using q0 d0 by (simp_all add: q_def)
  have mb: "\<bar>m\<bar> \<le> 24" "\<bar>m0\<bar> \<le> 23" using m m0 by linarith+
  have Tnb: "\<bar>Tn\<bar> \<le> 274" "\<bar>Tn0\<bar> \<le> 273" using Tn Tn0 by linarith+
  have "\<bar>m * T - m0 * T\<bar> \<le> 24 * 0 + 1 / 1000000 * 130"
    using m _ mb(1) T by (rule product_error) simp
  moreover have "\<bar>m * T\<bar> \<le> 24 * 130"
    using mb(1) T by (rule abs_mult_le)
  ultimately have P: "\<bar>P - m0 * T\<bar> \<le> 32 / 100000"
    using f32_step [of "m * T" "m0 * T" "130 / 1000000" 3120] by (simp add: P_def)
  have "\<bar>(Tn + T) - (Tn0 + T)\<bar> \<le> 1 / 100000" "\<bar>Tn + T\<bar> \<le> 404"
    using Tn Tnb T by linarith+
  then have S: "\<bar>S - (Tn0 + T)\<bar> \<le> 35 / 1000000"
    using f32_step [of "Tn + T" "Tn0 + T" "1 / 100000" 404] by (simp add: S_def)
  have Sl: "226 \<le> S" using S S0 by linarith
  have "\<bar>P / S - m0 * T / (Tn0 + T)\<bar> \<le> (32 / 100000 + 19 / 2 * (35 / 1000000)) / 226"
    using P S _ Sl _ q0 by (rule quotient_error) (use S0 in simp_all)
  then have x3: "\<bar>P / S - q\<bar> \<le> 3 / 1000000"
    by (simp add: q_def)
  then have "\<bar>P / S\<bar> \<le> 10" using q(1) by linarith
  then have Q: "\<bar>Q - q\<bar> \<le> 4 / 1000000"
    using f32_step [of "P / S" q "3 / 1000000" 10] x3 by (simp add: Q_def)
  have A0: "\<bar>l + q\<bar> \<le> 51 / 2" using l q(1) by linarith
  have "\<bar>(L + Q) - (l + q)\<bar> \<le> 14 / 1000000" using L Q by linarith
  moreover from this have "\<bar>L + Q\<bar> \<le> 26" using A0 by linarith
  ultimately have A: "\<bar>A - (l + q)\<bar> \<le> 16 / 1000000"
    using f32_step [of "L + Q" "l + q" "14 / 1000000" 26] by (simp add: A_def)
  then have Ab: "\<bar>A\<bar> \<le> 26" using A0 by linarith
  have "\<bar>Tn * A - Tn0 * (l + q)\<bar> \<le> 274 * (16 / 1000000) + 1 / 100000 * (51 / 2)"
    using Tn A Tnb(1) A0 by (rule product_error)
  moreover have "\<bar>Tn * A\<bar> \<le> 274 * 26"
    using Tnb(1) Ab by (rule abs_mult_le)
  ultimately have N: "\<bar>N - Tn0 * (l + q)\<bar> \<le> 51 / 10000"
    using f32_step [of "Tn * A" "Tn0 * (l + q)" "4639 / 1000000" 7124] by (simp add: N_def)
  have N0: "\<bar>Tn0 * (l + q)\<bar> \<le> 273 * (51 / 2)"
    using Tnb(2) A0 by (rule abs_mult_le)
  have "\<bar>(m - L) - (m0 - l)\<bar> \<le> 11 / 1000000" using m L by linarith
  moreover have "\<bar>m - L\<bar> \<le> 41" using mb(1) L l by linarith
  ultimately have B: "\<bar>B - (m0 - l)\<bar> \<le> 14 / 1000000"
    using f32_step [of "m - L" "m0 - l" "11 / 1000000" 41] by (simp add: B_def)
  have "\<bar>(B - Q) - (m0 - l - q)\<bar> \<le> 18 / 1000000" using B Q by linarith
  moreover have "\<bar>B - Q\<bar> \<le> 50" using B Q q(1) m0 l by linarith
  ultimately have D: "\<bar>D - (m0 - l - q)\<bar> \<le> 21 / 1000000"
    using f32_step [of "B - Q" "m0 - l - q" "18 / 1000000" 50] by (simp add: D_def)
  have D0: "8 \<le> m0 - l - q" using q(2) l by linarith
  have Dl: "79 / 10 \<le> D" using D D0 by linarith
  have D0a: "8 \<le> \<bar>m0 - l - q\<bar>" using D0 by linarith
  have "\<bar>Tn0 * (l + q) / (m0 - l - q)\<bar> \<le> 273 * (51 / 2) / 8"
    by (rule quotient_bound [OF N0 _ D0a]) simp
  then have R0: "\<bar>Tn0 * (l + q) / (m0 - l - q)\<bar> \<le> 871"
    by (rule order_trans) simp
  have "\<bar>N / D - Tn0 * (l + q) / (m0 - l - q)\<bar> \<le> (51 / 10000 + 871 * (21 / 1000000)) / (79 / 10)"
    using N D _ Dl _ R0 by (rule quotient_error) (use D0 in simp_all)
  then have x8: "\<bar>N / D - Tn0 * (l + q) / (m0 - l - q)\<bar> \<le> 297 / 100000"
    by simp
  then have "\<bar>N / D\<bar> \<le> 872" using R0 by linarith
  then have "\<bar>f32 (N / D) - Tn0 * (l + q) / (m0 - l - q)\<bar> \<le> 1 / 250"
    using f32_step [of "N / D" "Tn0 * (l + q) / (m0 - l - q)" "297 / 100000" 872] x8 by simp
  then show ?thesis
    by (simp add: f32_div_def f32_mul_def f32_add_def f32_sub_def P_def S_def Q_def A_def N_def
        B_def D_def q_def)
qed

text \<open>The argument of \<^verbatim>\<open>logf\<close>: the humidity is \<open>100 * raw / 65536\<close>, so the \<^verbatim>\<open>double\<close>
  quotient \<^verbatim>\<open>RH / 100.0\<close> is \<open>raw / 65536\<close>, which binary64 and binary32 both represent:
  neither the division nor the conversion to \<^verbatim>\<open>float\<close> rounds.\<close>

lemma logf_argument: "f32 (f64_div (ConvertHumidity v) 100) = ConvertHumidity v / 100"
proof -
  define n where "n = int (unat v)"
  have n: "0 \<le> n" "n < 65536"
    using unsigned_less [of v] by (simp_all add: n_def)
  have rn: "real (unat v) = of_int n" by (simp add: n_def)
  have q: "ConvertHumidity v / 100 = of_int n * 2 powi (- 16)"
    unfolding ConvertHumidity_eq rn by (simp add: power_int_minus field_simps)
  have "\<bar>n\<bar> < 2 ^ 53" using n by simp
  then have a: "f64 (of_int n * 2 powi (- 16)) = of_int n * 2 powi (- 16)"
    unfolding f64_def by (intro fround_exact [where m = n and k = "- 16"]) simp_all
  have b: "f32 (of_int n * 2 powi (- 16)) = of_int n * 2 powi (- 16)"
    using n by (intro f32_scaled_int) simp_all
  show ?thesis
    by (simp only: f64_div_def q a b)
qed

lemma ln_humidity_bounds:
  assumes "0 < ConvertHumidity v"
  shows "- 16 \<le> ln (ConvertHumidity v / 100)" "ln (ConvertHumidity v / 100) \<le> 0"
proof -
  define k where "k = unat v"
  have c: "ConvertHumidity v = 100 * real k / 65536"
    by (simp only: ConvertHumidity_eq k_def)
  have "k < 65536" using unat_u16_less [of v] by (simp only: k_def)
  moreover have "0 < k" using assms by (simp add: c)
  ultimately have n: "1 \<le> real k" "real k < 65536" by simp_all
  have x: "ConvertHumidity v / 100 = real k / 65536"
    by (simp add: c)
  have lo: "1 / 65536 \<le> real k / 65536" using n(1) by simp
  have "ln ((2::real) ^ 16) = real 16 * ln 2" by (rule ln_realpow)
  moreover have "(2::real) ^ 16 = 65536" by simp
  ultimately have "ln (65536::real) = 16 * ln 2" by simp
  moreover have "ln (2::real) \<le> 1" using ln_le_minus_one [of 2] by simp
  ultimately have "ln (65536::real) \<le> 16" by simp
  then have "- 16 \<le> ln (1 / 65536 :: real)"
    by (simp add: ln_div)
  also have "\<dots> \<le> ln (real k / 65536)"
    using lo by (intro ln_mono) simp_all
  finally show "- 16 \<le> ln (ConvertHumidity v / 100)" by (simp only: x)
  have "real k / 65536 \<le> 1" "0 < real k / 65536" using n by simp_all
  then show "ln (ConvertHumidity v / 100) \<le> 0"
    unfolding x by simp
qed

lemma dew_point_expression_error:
  assumes T: "T = ConvertTemperature tv" and RH: "RH = ConvertHumidity hv" and pos: "0 < RH"
    and logf: "\<bar>logf (RH / 100) - ln (RH / 100)\<bar> \<le> 1 / 100000"
  shows "\<bar>dew_point_expression logf (if T > 0 then f32 T_PLUS else f32 T_MINUS)
            (if T > 0 then f32 M_PLUS else f32 M_MINUS) T RH
          - the (dew_point_spec T RH)\<bar> \<le> 1 / 250"
proof -
  have Tb: "- 45 \<le> T" "T < 130"
    using ConvertTemperature_bounds [of tv] by (simp_all add: T)
  have l: "- 16 \<le> ln (RH / 100)" "ln (RH / 100) \<le> 0"
    using ln_humidity_bounds [of hv] pos by (simp_all add: RH)
  have arg: "f32 (f64_div RH 100) = RH / 100"
    unfolding RH by (rule logf_argument)
  show ?thesis
  proof (cases "T > 0")
    case True
    have q: "0 \<le> 1762 / 100 * T / (24312 / 100 + T)" "1762 / 100 * T / (24312 / 100 + T) \<le> 19 / 2"
      using True Tb by (simp_all add: field_simps)
    have "\<bar>f32_div (f32_mul (f32 T_PLUS) (f32_add (logf (RH / 100))
                (f32_div (f32_mul (f32 M_PLUS) T) (f32_add (f32 T_PLUS) T))))
              (f32_sub (f32_sub (f32 M_PLUS) (logf (RH / 100)))
                (f32_div (f32_mul (f32 M_PLUS) T) (f32_add (f32 T_PLUS) T)))
          - 24312 / 100 * (ln (RH / 100) + 1762 / 100 * T / (24312 / 100 + T))
              / (1762 / 100 - ln (RH / 100) - 1762 / 100 * T / (24312 / 100 + T))\<bar> \<le> 1 / 250"
      using True Tb q l logf
      by (intro dew_point_error) (simp_all add: coefficient_values)
    then show ?thesis
      using True pos by (simp add: dew_point_expression_def dew_point_spec_def arg Let_def)
  next
    case False
    have q: "1123 / 50 * T / (13631 / 50 + T) \<le> 0" "- (19 / 2) \<le> 1123 / 50 * T / (13631 / 50 + T)"
      using False Tb by (simp_all add: field_simps)
    have "\<bar>f32_div (f32_mul (f32 T_MINUS) (f32_add (logf (RH / 100))
                (f32_div (f32_mul (f32 M_MINUS) T) (f32_add (f32 T_MINUS) T))))
              (f32_sub (f32_sub (f32 M_MINUS) (logf (RH / 100)))
                (f32_div (f32_mul (f32 M_MINUS) T) (f32_add (f32 T_MINUS) T)))
          - 13631 / 50 * (ln (RH / 100) + 1123 / 50 * T / (13631 / 50 + T))
              / (1123 / 50 - ln (RH / 100) - 1123 / 50 * T / (13631 / 50 + T))\<bar> \<le> 1 / 250"
      using False Tb q l logf
      by (intro dew_point_error) (simp_all add: coefficient_values)
    then show ?thesis
      using False pos by (simp add: dew_point_expression_def dew_point_spec_def arg Let_def)
  qed
qed

text \<open>Claim C7. After a reply that passes both checksums, with \<open>T\<close> and \<open>RH\<close> the converted
  temperature and humidity, \<^verbatim>\<open>GetMeasurements\<close> returns 0 with \<open>T\<close> and \<open>RH\<close> in the
  temperature and humidity outputs. When \<open>RH \<le> 0\<close> the specification's dew point is none
  and the dew point output is not written. Otherwise, provided the value that \<^verbatim>\<open>logf\<close>
  returns for \<open>RH / 100\<close> is within \<open>1 / 100000\<close> of the natural logarithm, the dew point
  written is within \<open>1 / 250\<close> of a degree of the specification's value
  \<open>T_coef * (ln (RH / 100) + m * T / (T_coef + T)) / (m - ln (RH / 100) - m * T / (T_coef + T))\<close>
  with the pair (243.12, 17.62) for \<open>T > 0\<close> and (272.62, 22.46) otherwise: the difference
  is the rounding of the binary32 operations and of the coefficients.\<close>

theorem GetMeasurements_dew_point:
  assumes "WriteI2C io w handle MEASURE_T_RH_CLKSTR = (3, w1)"
    and "ReadI2c io w1 handle 0x06 = (reply, w2)"
    and "B0 reply AND 0x80 = 0"
    and "B3 reply = compute [B1 reply, B2 reply]"
    and "B6 reply = compute [B4 reply, B5 reply]"
    and "T = ConvertTemperature (word_of_bytes (B1 reply) (B2 reply))"
    and "RH = ConvertHumidity (word_of_bytes (B4 reply) (B5 reply))"
    and "RH > 0 \<Longrightarrow> \<bar>logf (RH / 100) - ln (RH / 100)\<bar> \<le> 1 / 100000"
  shows "\<exists>d. GetMeasurements io logf w handle (temperature0, humidity0, dew_point0)
               = (0, (T, RH, d), w2)
           \<and> (case dew_point_spec T RH of
                 None \<Rightarrow> d = dew_point0
               | Some dp \<Rightarrow> \<bar>d - dp\<bar> \<le> 1 / 250)"
proof (cases "RH > 0")
  case True
  let ?d = "dew_point_expression logf (if T > 0 then f32 T_PLUS else f32 T_MINUS)
              (if T > 0 then f32 M_PLUS else f32 M_MINUS) T RH"
  have "GetMeasurements io logf w handle (temperature0, humidity0, dew_point0) = (0, (T, RH, ?d), w2)"
    using assms(4,5) True
    by (simp add: GetMeasurements_reply [OF assms(1-3)] assms(6,7) [symmetric])
  moreover obtain dp where s: "dew_point_spec T RH = Some dp"
    using True by (simp add: dew_point_spec_def Let_def)
  moreover have "\<bar>?d - the (dew_point_spec T RH)\<bar> \<le> 1 / 250"
    using assms(6,7) True assms(8) [OF True] by (rule dew_point_expression_error)
  then have "\<bar>?d - dp\<bar> \<le> 1 / 250"
    by (simp only: s option.sel)
  ultimately show ?thesis
    by (intro exI [of _ ?d]) (simp only: option.case simp_thms)
next
  case False
  have "GetMeasurements io logf w handle (temperature0, humidity0, dew_point0)
      = (0, (T, RH, dew_point0), w2)"
    using assms(4,5) False
    by (simp add: GetMeasurements_reply [OF assms(1-3)] assms(6,7) [symmetric])
  moreover have "dew_point_spec T RH = None"
    using False by (simp add: dew_point_spec_def)
  ultimately show ?thesis by simp
qed

theorem GetMeasurements_dew_point_witness:
  "WriteI2C (sim_io (\<lambda>h. answering 0x66 0x66 0x93 0x80 0x00 0xA2)) [] 1 MEASURE_T_RH_CLKSTR
     = (3, [(1, measure_command)])
   \<and> ReadI2c (sim_io (\<lambda>h. answering 0x66 0x66 0x93 0x80 0x00 0xA2)) [(1, measure_command)] 1 0x06
     = (\<lparr>ReportID = 0x03, B0 = 0x06, B1 = 0x66, B2 = 0x66, B3 = 0x93, B4 = 0x80, B5 = 0x00, B6 = 0xA2\<rparr>,
        [(1, measure_command), (1, read_six)])
   \<and> (0x06 :: u8) AND 0x80 = 0
   \<and> (0x93 :: u8) = compute [0x66, 0x66]
   \<and> (0xA2 :: u8) = compute [0x80, 0x00]
   \<and> ConvertTemperature (word_of_bytes 0x66 0x66) = 819165 / 32768
   \<and> ConvertHumidity (word_of_bytes 0x80 0x00) = 50
   \<and> \<bar>ln (50 / 100 :: real) - ln (50 / 100)\<bar> \<le> 1 / 100000
   \<and> (\<exists>d. GetMeasurements (sim_io (\<lambda>h. answering 0x66 0x66 0x93 0x80 0x00 0xA2)) ln [] 1 (20, 50, 10)
               = (0, (819165 / 32768, 50, d), [(1, measure_command), (1, read_six)])
           \<and> dew_point_spec (819165 / 32768) 50
               = Some (243.12 * (ln (50 / 100) + 17.62 * (819165 / 32768) / (243.12 + 819165 / 32768))
                       / (17.62 - ln (50 / 100) - 17.62 * (819165 / 32768) / (243.12 + 819165 / 32768)))
           \<and> \<bar>d - 243.12 * (ln (50 / 100) + 17.62 * (819165 / 32768) / (243.12 + 819165 / 32768))
                       / (17.62 - ln (50 / 100) - 17.62 * (819165 / 32768) / (243.12 + 819165 / 32768))\<bar>
               \<le> 1 / 250)"
proof -
  let ?io = "sim_io (\<lambda>h. answering 0x66 0x66 0x93 0x80 0x00 0xA2)"
  let ?reply = "\<lparr>ReportID = 0x03, B0 = 0x06, B1 = 0x66, B2 = 0x66, B3 = 0x93, B4 = 0x80, B5 = 0x00, B6 = 0xA2\<rparr>"
  let ?dp = "243.12 * (ln (50 / 100) + 17.62 * (819165 / 32768) / (243.12 + 819165 / 32768))
               / (17.62 - ln (50 / 100) - 17.62 * (819165 / 32768) / (243.12 + 819165 / 32768)) :: real"
  have a: "WriteI2C ?io [] 1 MEASURE_T_RH_CLKSTR = (3, [(1, measure_command)])"
    by (simp add: sim_answering_write)
  have b: "ReadI2c ?io [(1, measure_command)] 1 0x06 = (?reply, [(1, measure_command), (1, read_six)])"
    by (simp add: sim_answering_read)
  have c: "B0 ?reply AND 0x80 = 0" by simp
  have d: "B3 ?reply = compute [B1 ?reply, B2 ?reply]" by (simp add: compute_6666)
  have e: "B6 ?reply = compute [B4 ?reply, B5 ?reply]" by (simp add: compute_8000)
  have T: "819165 / 32768 = ConvertTemperature (word_of_bytes (B1 ?reply) (B2 ?reply))"
    by (simp add: ConvertTemperature_eq unat_word_of_bytes)
  have RH: "50 = ConvertHumidity (word_of_bytes (B4 ?reply) (B5 ?reply))"
    by (simp add: ConvertHumidity_eq unat_word_of_bytes)
  have l: "(50::real) > 0 \<Longrightarrow> \<bar>ln (50 / 100 :: real) - ln (50 / 100)\<bar> \<le> 1 / 100000"
    by simp
  have s: "dew_point_spec (819165 / 32768) 50 = Some ?dp"
    by (simp add: dew_point_spec_def Let_def)
  obtain dv where g: "GetMeasurements ?io ln [] 1 (20, 50, 10)
        = (0, (819165 / 32768, 50, dv), [(1, measure_command), (1, read_six)])"
    and v: "case dew_point_spec (819165 / 32768) 50 of None \<Rightarrow> dv = 10 | Some dp \<Rightarrow> \<bar>dv - dp\<bar> \<le> 1 / 250"
    using GetMeasurements_dew_point [where logf = ln and ?temperature0.0 = 20
        and ?humidity0.0 = 50 and ?dew_point0.0 = 10, OF a b c d e T RH l]
    by blast
  have "\<bar>dv - ?dp\<bar> \<le> 1 / 250"
    using v unfolding s by simp
  with g s have "\<exists>d. GetMeasurements ?io ln [] 1 (20, 50, 10)
               = (0, (819165 / 32768, 50, d), [(1, measure_command), (1, read_six)])
           \<and> dew_point_spec (819165 / 32768) 50 = Some ?dp \<and> \<bar>d - ?dp\<bar> \<le> 1 / 250"
    by blast
  moreover have "ConvertTemperature (word_of_bytes 0x66 0x66) = 819165 / 32768"
    "ConvertHumidity (word_of_bytes 0x80 0x00) = 50"
    using T RH by simp_all
  moreover have "(0x93 :: u8) = compute [0x66, 0x66]" "(0xA2 :: u8) = compute [0x80, 0x00]"
    by (simp_all add: compute_6666 compute_8000)
  moreover have "(0x06 :: u8) AND 0x80 = 0" "\<bar>ln (50 / 100 :: real) - ln (50 / 100)\<bar> \<le> 1 / 100000"
    by simp_all
  ultimately show ?thesis
    using a b by blast
qed

section \<open>The conversions at the ends of their domain\<close>

text \<open>Claim C8 as stated fails at the input 65536: the argument is a \<^verbatim>\<open>uint16_t\<close>, for which
  65536 is 0, and the results there are -45 and 0, not 175 and 100.\<close>

theorem Convert_65536_counterexample:
  "ConvertTemperature 65536 = - 45 \<and> ConvertTemperature 65536 \<noteq> 175
   \<and> ConvertHumidity 65536 = 0 \<and> ConvertHumidity 65536 \<noteq> 100"
  by (simp add: ConvertTemperature_eq ConvertHumidity_eq)

text \<open>Claim C8, amended. For every 16-bit register value the temperature is
  \<open>175 * raw / 65536 - 45\<close> and the humidity \<open>100 * raw / 65536\<close>, exactly (no rounding
  occurs in binary32); at 0 they are -45 and 0; they stay below 130 and below 100, and at
  the largest argument 65535 they are \<open>8519505 / 65536\<close> and \<open>1638375 / 16384\<close>.\<close>

theorem Convert_formulas:
  "ConvertTemperature raw = 175 * real (unat raw) / 65536 - 45
   \<and> ConvertHumidity raw = 100 * real (unat raw) / 65536
   \<and> ConvertTemperature 0 = - 45
   \<and> ConvertHumidity 0 = 0
   \<and> ConvertTemperature raw < 130
   \<and> ConvertHumidity raw < 100
   \<and> ConvertTemperature 65535 = 8519505 / 65536
   \<and> ConvertHumidity 65535 = 1638375 / 16384"
proof -
  have "ConvertTemperature 0 = - 45" "ConvertHumidity 0 = 0"
    "ConvertTemperature 65535 = 8519505 / 65536" "ConvertHumidity 65535 = 1638375 / 16384"
    by (simp_all add: ConvertTemperature_eq ConvertHumidity_eq)
  then show ?thesis
    using ConvertTemperature_bounds(2) [of raw] ConvertHumidity_bounds(2) [of raw]
      ConvertTemperature_eq [of raw] ConvertHumidity_eq [of raw]
    by (simp only: simp_thms)
qed

theorem Convert_formulas_witness:
  "ConvertTemperature 0xBEEF = 5604705 / 65536 \<and> ConvertHumidity 0xBEEF = 1221975 / 16384"
  using Convert_formulas [of "0xBEEF"] by simp

section \<open>Properties of UpdateSensorsMeasurements and of the measurement in main\<close>

lemma update_bound_sensor_reply:
  assumes "WriteI2C io w (usb_stick_handle (sensors_table ! k)) MEASURE_T_RH_CLKSTR = (3, w1)"
    and "ReadI2c io w1 (usb_stick_handle (sensors_table ! k)) 0x06 = (reply, w2)"
    and "B0 reply AND 0x80 = 0"
  shows "update_bound_sensor io logf w sensors_table k =
     (if B3 reply \<noteq> compute [B1 reply, B2 reply] then (- 2, sensors_table, w2)
      else if B6 reply \<noteq> compute [B4 reply, B5 reply] then (- 3, sensors_table, w2)
      else (0, sensors_table[k := (sensors_table ! k)
             \<lparr>temperature := ConvertTemperature (word_of_bytes (B1 reply) (B2 reply)),
              humidity := ConvertHumidity (word_of_bytes (B4 reply) (B5 reply)),
              dew_point :=
                if ConvertHumidity (word_of_bytes (B4 reply) (B5 reply)) > 0
                then dew_point_expression logf
                       (if ConvertTemperature (word_of_bytes (B1 reply) (B2 reply)) > 0
                        then f32 T_PLUS else f32 T_MINUS)
                       (if ConvertTemperature (word_of_bytes (B1 reply) (B2 reply)) > 0
                        then f32 M_PLUS else f32 M_MINUS)
                       (ConvertTemperature (word_of_bytes (B1 reply) (B2 reply)))
                       (ConvertHumidity (word_of_bytes (B4 reply) (B5 reply)))
                else 1000\<rparr>], w2))"
  using assms
  by (simp add: update_bound_sensor_def VerifyChecksum_temperature_word VerifyChecksum_humidity_word Let_def)

lemma update_bound_sensor_failure:
  assumes "update_bound_sensor io logf w sensors_table k = (r, table', w')" and "r \<noteq> 0"
  shows "table' = sensors_table"
  using assms
  by (auto simp: update_bound_sensor_def Let_def split: prod.splits if_splits)

lemma UpdateSensorsMeasurements_failure:
  assumes "UpdateSensorsMeasurements io logf w sensors_table n = (Some r, table', w')" and "r \<noteq> 0"
  shows "table' = sensors_table"
  using assms
proof (induction n)
  case 0
  then show ?case by simp
next
  case (Suc n)
  show ?case
  proof (cases "usb_stick_handle (sensors_table ! n) \<noteq> 0")
    case True
    obtain r0 t0 w0 where u: "update_bound_sensor io logf w sensors_table n = (r0, t0, w0)"
      by (cases "update_bound_sensor io logf w sensors_table n") auto
    with True Suc.prems(1) have "r0 = r" "t0 = table'" by simp_all
    with u have "update_bound_sensor io logf w sensors_table n = (r, table', w0)" by simp
    then show ?thesis
      using Suc.prems(2) by (rule update_bound_sensor_failure)
  next
    case False
    with Suc show ?thesis by simp
  qed
qed

lemma dew_point_sample:
  "dew_point_expression logf_half (f32 T_PLUS) (f32 M_PLUS) (819165 / 32768) 50 = 14523409 / 1048576"
  by code_simp

lemma handles_two_sensors:
  "usb_stick_handle (two_sensors ! 0) = 1" "usb_stick_handle (two_sensors ! Suc 0) = 2"
  by (simp_all add: two_sensors_def)







lemma bad_humidity_checksum_cycle:
  "update_bound_sensor (sim_io bad_humidity_checksum) logf w one_sensor 0
     = (- 3, one_sensor, w @ [(1, measure_command), (1, read_six)])"
proof -
  let ?reply = "\<lparr>ReportID = 0x03, B0 = 0x06, B1 = 0x66, B2 = 0x66, B3 = 0x93, B4 = 0x80, B5 = 0x00, B6 = 0xA3\<rparr>"
  have h: "usb_stick_handle (one_sensor ! 0) = 1"
    by (simp add: one_sensor_def)
  have a: "WriteI2C (sim_io bad_humidity_checksum) w (usb_stick_handle (one_sensor ! 0)) MEASURE_T_RH_CLKSTR
      = (3, w @ [(1, measure_command)])"
    by (simp add: h bad_humidity_checksum_def [abs_def] sim_answering_write)
  have b: "ReadI2c (sim_io bad_humidity_checksum) (w @ [(1, measure_command)])
        (usb_stick_handle (one_sensor ! 0)) 0x06
      = (?reply, w @ [(1, measure_command), (1, read_six)])"
    by (simp add: h bad_humidity_checksum_def [abs_def] sim_answering_read)
  have c: "B0 ?reply AND 0x80 = 0" by simp
  show ?thesis
    by (simp add: update_bound_sensor_reply [OF a b c] compute_6666 compute_8000)
qed

text \<open>Claim C1 asks that every bound sensor be measured in a cycle. On a table of two bound
  sensors whose devices both answer, \<^verbatim>\<open>UpdateSensorsMeasurements\<close> measures the sensor at
  index 1, the first one its loop reaches, and returns 0 from inside the loop: the only
  reports written go to handle 2, and the sensor at index 0 keeps its initial readings of
  1000.\<close>

theorem UpdateSensorsMeasurements_measures_one_sensor:
  "UpdateSensorsMeasurements (sim_io both_answering) logf_half [] two_sensors 2
     = (Some 0,
        [new_sensor\<lparr>stick_serial_number := 6873, usb_stick_handle := 1, name := ''outer''\<rparr>,
         new_sensor\<lparr>stick_serial_number := 6181, usb_stick_handle := 2, name := ''inner'',
           temperature := 819165 / 32768, humidity := 50, dew_point := 14523409 / 1048576\<rparr>],
        [(2, measure_command), (2, read_six)])"
proof -
  let ?reply = "\<lparr>ReportID = 0x03, B0 = 0x06, B1 = 0x66, B2 = 0x66, B3 = 0x93, B4 = 0x80, B5 = 0x00, B6 = 0xA2\<rparr>"
  have a: "WriteI2C (sim_io both_answering) [] (usb_stick_handle (two_sensors ! Suc 0)) MEASURE_T_RH_CLKSTR
      = (3, [(2, measure_command)])"
    by (simp add: handles_two_sensors both_answering_def [abs_def] sim_answering_write)
  have b: "ReadI2c (sim_io both_answering) [(2, measure_command)] (usb_stick_handle (two_sensors ! Suc 0)) 0x06
      = (?reply, [(2, measure_command), (2, read_six)])"
    by (simp add: handles_two_sensors both_answering_def [abs_def] sim_answering_read)
  have c: "B0 ?reply AND 0x80 = 0" by simp
  have T: "ConvertTemperature (word_of_bytes 0x66 0x66) = 819165 / 32768"
    by (simp add: ConvertTemperature_eq unat_word_of_bytes)
  have RH: "ConvertHumidity (word_of_bytes 0x80 0x00) = 50"
    by (simp add: ConvertHumidity_eq unat_word_of_bytes)
  have "update_bound_sensor (sim_io both_answering) logf_half [] two_sensors (Suc 0)
      = (0, two_sensors[Suc 0 := (two_sensors ! Suc 0)\<lparr>temperature := 819165 / 32768, humidity := 50,
             dew_point := 14523409 / 1048576\<rparr>], [(2, measure_command), (2, read_six)])"
    by (simp add: update_bound_sensor_reply [OF a b c] compute_6666 compute_8000 T RH dew_point_sample)
  then show ?thesis
    by (simp add: numeral_2_eq_2 handles_two_sensors) (simp add: two_sensors_def)
qed







text \<open>Claim C5 asks that a reply whose humidity word fails its checksum still delivers
  the temperature. \<^verbatim>\<open>GetMeasurements\<close> does: for the reply 66 66 93 80 00 A3 it returns -3
  with the converted temperature in its output. \<^verbatim>\<open>UpdateSensorsMeasurements\<close>, whose loop
  body repeats the same steps, returns -3 before it stores anything: for the same reply
  the table is as it was, and the temperature of the entry is still 1000.\<close>

theorem UpdateSensorsMeasurements_humidity_checksum:
  "UpdateSensorsMeasurements (sim_io bad_humidity_checksum) ln [] one_sensor 1
     = (Some (- 3), one_sensor, [(1, measure_command), (1, read_six)])
   \<and> temperature (one_sensor ! 0) = 1000
   \<and> GetMeasurements (sim_io bad_humidity_checksum) ln [] 1 (1000, 1000, 1000)
     = (- 3, (819165 / 32768, 1000, 1000), [(1, measure_command), (1, read_six)])"
proof -
  let ?reply = "\<lparr>ReportID = 0x03, B0 = 0x06, B1 = 0x66, B2 = 0x66, B3 = 0x93, B4 = 0x80, B5 = 0x00, B6 = 0xA3\<rparr>"
  have h: "usb_stick_handle (one_sensor ! 0) = 1" "temperature (one_sensor ! 0) = 1000"
    by (simp_all add: one_sensor_def new_sensor_def)
  have u: "UpdateSensorsMeasurements (sim_io bad_humidity_checksum) ln [] one_sensor 1
     = (Some (- 3), one_sensor, [(1, measure_command), (1, read_six)])"
    using bad_humidity_checksum_cycle [of ln "[]"] by (simp add: h)
  have a: "WriteI2C (sim_io bad_humidity_checksum) [] 1 MEASURE_T_RH_CLKSTR = (3, [(1, measure_command)])"
    by (simp add: bad_humidity_checksum_def [abs_def] sim_answering_write)
  have b: "ReadI2c (sim_io bad_humidity_checksum) [(1, measure_command)] 1 0x06
      = (?reply, [(1, measure_command), (1, read_six)])"
    by (simp add: bad_humidity_checksum_def [abs_def] sim_answering_read)
  have c: "B0 ?reply AND 0x80 = 0" by simp
  have g: "GetMeasurements (sim_io bad_humidity_checksum) ln [] 1 (1000, 1000, 1000)
     = (- 3, (819165 / 32768, 1000, 1000), [(1, measure_command), (1, read_six)])"
    using GetMeasurements_reply [OF a b c, of ln 1000 1000 1000]
    by (simp add: compute_6666 compute_8000 ConvertTemperature_eq unat_word_of_bytes)
  show ?thesis
    using u h(2) g by simp
qed

section \<open>Properties of LoadConfiguration\<close>

text \<open>What the loop does with lines that are malformed in length or in their fields: a
  line shorter than 4 or longer than 40 characters is reported with its number and
  length; a line of admissible length that begins with the tab (no name) or whose tab is
  its last character before the line end (no serial number) is reported with its text.
  In each case nothing is stored and the loop goes on. Whenever the file opens and no
  array is overrun the function returns 0.\<close>

lemma config_line_too_few:
  assumes "int (length l) < MIN_CONF_LINE_LENGTH"
  shows "config_line null_difference l st
       = Continue (st\<lparr>lines_iterator := lines_iterator st + 1,
                       console := console st
                         @ [TooFewCharacters (lines_iterator st + 1) (int (length l))]\<rparr>)"
  using assms by (simp add: config_line_def Let_def)

lemma config_line_too_many:
  assumes "int (length l) > MAX_CONF_LINE_LENGTH"
  shows "config_line null_difference l st
       = Continue (st\<lparr>lines_iterator := lines_iterator st + 1,
                       console := console st
                         @ [TooManyCharacters (lines_iterator st + 1) (int (length l))]\<rparr>)"
  using assms by (simp add: config_line_def Let_def MIN_CONF_LINE_LENGTH_def MAX_CONF_LINE_LENGTH_def)

lemma strchr_append:
  assumes "c \<notin> set xs" "CHR 0x00 \<notin> set xs" "c \<noteq> CHR 0x00"
  shows "strchr (xs @ c # ys) c = Some (length xs)"
  using assms by (induction xs) auto

lemma config_line_no_name:
  assumes "4 \<le> length l" "length l \<le> 40" "hd l = CHR 0x09"
  shows "config_line null_difference l st
       = Continue (st\<lparr>lines_iterator := lines_iterator st + 1,
                       console := console st
                         @ [NoDataBeforeSeparator (lines_iterator st + 1)
                              (cstr (l[length l - 1 := CHR 0x00]))]\<rparr>)"
proof -
  define line where "line = l[length l - 1 := CHR 0x00]"
  have ld: "l[nat (int (length l) - 1) := CHR 0x00] = line" "l[length l - Suc 0 := CHR 0x00] = line"
    by (simp_all add: line_def nat_diff_distrib')
  obtain rest where l: "l = CHR 0x09 # rest" and r: "3 \<le> length rest"
    using assms(1,3) by (cases l) auto
  have line: "line = CHR 0x09 # rest[length rest - 1 := CHR 0x00]"
    unfolding line_def l using r by (cases "length rest") simp_all
  have a: "strchr line SEPARATION_CHAR = Some 0"
    by (simp add: line SEPARATION_CHAR_def)
  have b: "cstr line \<noteq> BINDING_LIST_STOP"
    by (simp add: line cstr_def BINDING_LIST_STOP_def)
  show ?thesis
    using assms(1,2) a b
    by (simp add: config_line_def Let_def MIN_CONF_LINE_LENGTH_def MAX_CONF_LINE_LENGTH_def ld)
qed

lemma config_line_no_serial:
  assumes "l = field @ [CHR 0x09, c]" "2 \<le> length field" "length field \<le> 38"
    and "CHR 0x09 \<notin> set field" "CHR 0x00 \<notin> set field"
  shows "config_line null_difference l st
       = Continue (st\<lparr>lines_iterator := lines_iterator st + 1,
                       console := console st
                         @ [NoDataAfterSeparator (lines_iterator st + 1) (field @ [CHR 0x09])]\<rparr>)"
proof -
  define line where "line = l[length l - 1 := CHR 0x00]"
  have ld: "l[nat (int (length l) - 1) := CHR 0x00] = line" "l[length l - Suc 0 := CHR 0x00] = line"
    by (simp_all add: line_def nat_diff_distrib')
  have len: "int (length field) = int (length l) - 2" "4 \<le> length l" "length l \<le> 40"
    using assms(2,3) by (simp_all add: assms(1))
  have line: "line = field @ [CHR 0x09, CHR 0x00]"
    by (simp add: line_def assms(1) list_update_append)
  have a: "strchr line SEPARATION_CHAR = Some (length field)"
    unfolding line SEPARATION_CHAR_def using assms(4,5) by (intro strchr_append) simp_all
  have "takeWhile (\<lambda>c. c \<noteq> CHR 0x00) (field @ [CHR 0x09, CHR 0x00])
      = field @ takeWhile (\<lambda>c. c \<noteq> CHR 0x00) [CHR 0x09, CHR 0x00]"
    using assms(5) by (intro takeWhile_append2) auto
  then have c: "cstr line = field @ [CHR 0x09]"
    by (simp add: line cstr_def)
  have b: "cstr line \<noteq> BINDING_LIST_STOP"
    using assms(4) unfolding c BINDING_LIST_STOP_def by auto
  show ?thesis
    using a b len unfolding c [symmetric]
    by (simp add: config_line_def Let_def MIN_CONF_LINE_LENGTH_def MAX_CONF_LINE_LENGTH_def ld)
qed

lemma LoadConfiguration_return_value:
  assumes "LoadConfiguration null_difference (Some file_lines) table sensors_iterator0
             = Some (r, table', number_of_sensors, out)"
  shows "r = 0"
  using assms by (auto simp: LoadConfiguration_def split: option.splits)

text \<open>Claim C9 asks that a line with a non-decimal serial number be reported and skipped
  and that every well-formed line yield an entry. The test of the code is that
  \<^verbatim>\<open>strtol\<close> returns a value other than 0. On the sample file, with a table of 16
  entries and the iterator starting at 0, the line \<^verbatim>\<open>kitchen<tab>12abc\<close> is stored as the
  sensor \<^verbatim>\<open>kitchen\<close> with serial number 12 and nothing is reported for it, and the line
  \<^verbatim>\<open>cellar<tab>0\<close> is reported as not a decimal number and skipped.\<close>

theorem LoadConfiguration_serial_check:
  "LoadConfiguration (- 1) (Some sample_configuration) (replicate 16 new_sensor) 0
     = Some (0,
         (replicate 16 new_sensor)[0 := new_sensor\<lparr>stick_serial_number := 12, name := ''kitchen''\<rparr>],
         1,
         [ReadingConfigurationFile,
          NotDecimalNumber 2 (''cellar'' @ [CHR 0x09] @ ''0'') ''0''])"
  by code_simp

end
